theory Spec2Isabelle
  imports Main "HOL-Library.Sublist" "HOL-Library.Multiset"
begin

text \<open>
  The repository holds the lead-capture server in two files that define the same routes
  under the same names: \<^verbatim>\<open>src/server.js\<close>, which keeps the submissions in PostgreSQL,
  and \<^verbatim>\<open>src/unnamed/part_000\<close>, which keeps them in SQLite. A definition taken from the
  first carries the suffix \<open>_pg\<close>, one taken from the second the suffix \<open>_sqlite\<close>.
\<close>

section \<open>JavaScript values seen by the handlers\<close>

text \<open>
  The handlers read three kinds of dynamic values: header values (a string or
  \<^verbatim>\<open>undefined\<close>), the \<^verbatim>\<open>apiKey\<close> query parameter (a string, an array or an object
  when the query string nests, or \<^verbatim>\<open>undefined\<close>) and the properties of the parsed
  JSON body. One datatype covers them.

  A number is observed by the handlers in two ways only: it is tested for truthiness
  and it is interpolated into a template literal. \<open>JNum z t\<close> therefore carries
  \<open>z\<close> (the number is \<open>0\<close>, \<open>-0\<close> or \<open>NaN\<close>) and \<open>t\<close> (its \<^verbatim>\<open>ToString\<close> text).
\<close>

datatype jsval =
    JUndefined
  | JNull
  | JBool bool
  | JNum bool string
  | JStr string
  | JArr "jsval list"
  | JObj "(string \<times> jsval) list"

datatype js_error = TypeError | DriverError

text \<open>\<^verbatim>\<open>!v\<close> is \<open>\<not> truthy v\<close>: the falsy values are \<^verbatim>\<open>undefined\<close>, \<^verbatim>\<open>null\<close>,
  \<^verbatim>\<open>false\<close>, zero, \<^verbatim>\<open>NaN\<close> and the empty string; arrays and objects are truthy.\<close>

fun truthy :: "jsval \<Rightarrow> bool" where
  "truthy JUndefined = False"
| "truthy JNull = False"
| "truthy (JBool b) = b"
| "truthy (JNum z t) = (\<not> z)"
| "truthy (JStr s) = (s \<noteq> [])"
| "truthy (JArr xs) = True"
| "truthy (JObj kvs) = True"

text \<open>\<^verbatim>\<open>a || b\<close>\<close>

definition js_or :: "jsval \<Rightarrow> jsval \<Rightarrow> jsval" where
  "js_or a b = (if truthy a then a else b)"

text \<open>A value of \<^verbatim>\<open>process.env\<close> or of \<^verbatim>\<open>req.headers\<close>: a string, or \<^verbatim>\<open>undefined\<close>
  when the variable or header is not set.\<close>

fun of_env :: "string option \<Rightarrow> jsval" where
  "of_env None = JUndefined"
| "of_env (Some s) = JStr s"

text \<open>\<^verbatim>\<open>v === e\<close> for a request value \<open>v\<close> and a string-or-undefined \<open>e\<close>. Arrays and
  objects built from the request are never identical to it.\<close>

fun strict_eq :: "jsval \<Rightarrow> string option \<Rightarrow> bool" where
  "strict_eq JUndefined None = True"
| "strict_eq (JStr s) (Some e) = (s = e)"
| "strict_eq v e = False"

text \<open>
  \<^verbatim>\<open>ToString\<close>, as a template literal applies it. An array joins its elements with
  commas, rendering \<^verbatim>\<open>null\<close> and \<^verbatim>\<open>undefined\<close> elements as the empty string. An object
  parsed from JSON answers \<^verbatim>\<open>[object Object]\<close> through \<^verbatim>\<open>Object.prototype.toString\<close>,
  unless it has an own property \<^verbatim>\<open>toString\<close>: that property shadows the method and is
  not callable, and the conversion throws a \<^verbatim>\<open>TypeError\<close>.
\<close>

fun js_to_string :: "jsval \<Rightarrow> js_error + string"
  and js_join :: "jsval list \<Rightarrow> js_error + string" where
  "js_to_string JUndefined = Inr ''undefined''"
| "js_to_string JNull = Inr ''null''"
| "js_to_string (JBool b) = Inr (if b then ''true'' else ''false'')"
| "js_to_string (JNum z t) = Inr t"
| "js_to_string (JStr s) = Inr s"
| "js_to_string (JArr xs) = js_join xs"
| "js_to_string (JObj kvs) =
     (if ''toString'' \<in> fst ` set kvs then Inl TypeError else Inr ''[object Object]'')"
| "js_join [] = Inr []"
| "js_join (x # xs) =
     (case (if x = JUndefined \<or> x = JNull then Inr [] else js_to_string x) of
        Inl e \<Rightarrow> Inl e
      | Inr s \<Rightarrow>
          (case js_join xs of
             Inl e \<Rightarrow> Inl e
           | Inr r \<Rightarrow> Inr (if xs = [] then s else s @ '','' @ r)))"

section \<open>Configuration, requests and responses\<close>

text \<open>The variables of \<^verbatim>\<open>process.env\<close> that the request paths read.\<close>

record env =
  API_KEY :: "string option"
  ADMIN_PASSWORD :: "string option"
  EMAIL_USER :: "string option"
  EMAIL_PASS :: "string option"

text \<open>
  The parts of an Express request that the code reads. \<^verbatim>\<open>bodyParser.json()\<close> is
  installed for every route and leaves the parsed object in \<^verbatim>\<open>req.body\<close>; a property
  that the object lacks reads as \<^verbatim>\<open>undefined\<close>. The handlers destructure \<^verbatim>\<open>req.body\<close>
  without a test, so the model starts where they do: from a request whose body is an
  object, be it the empty one.
\<close>

record request =
  x_api_key :: "string option"
  authorization :: "string option"
  query_apiKey :: jsval
  body :: "string \<rightharpoonup> jsval"
  params_id :: string

definition field :: "request \<Rightarrow> string \<Rightarrow> jsval" where
  "field req k = (case body req k of None \<Rightarrow> JUndefined | Some v \<Rightarrow> v)"

text \<open>
  Over HTTP a header reaches \<^verbatim>\<open>req.headers\<close> as its field value: the HTTP layer under
  Express (not code of this repository) removes the optional whitespace, spaces and
  tabs, at both ends of the header line's value before the middlewares see it
  (RFC 9110, section 5.5). \<open>field_value raw\<close> is what \<^verbatim>\<open>req.headers\<close> holds for a header
  sent as \<open>raw\<close>.
\<close>

definition ows :: "char \<Rightarrow> bool" where
  "ows c \<longleftrightarrow> c = CHR '' '' \<or> c = CHR 0x09"

definition field_value :: "string \<Rightarrow> string" where
  "field_value raw = rev (dropWhile ows (rev (dropWhile ows raw)))"

text \<open>
  Every handler answers with \<^verbatim>\<open>res.status(c).json(obj)\<close> or \<^verbatim>\<open>res.json(obj)\<close> (status
  200). The objects sent have one of six shapes:
  \<^item> \<open>Failure m\<close> is \<^verbatim>\<open>{ success: false, message: m }\<close>;
  \<^item> \<open>Token t\<close> is \<^verbatim>\<open>{ success: true, token: t }\<close>;
  \<^item> \<open>TokenMsg m t\<close> is \<^verbatim>\<open>{ success: true, message: m, token: t }\<close>;
  \<^item> \<open>Submitted m i\<close> is \<^verbatim>\<open>{ success: true, message: m, submissionId: i }\<close>;
  \<^item> \<open>Rows rs\<close> is \<^verbatim>\<open>{ success: true, data: rs }\<close>;
  \<^item> \<open>Success m\<close> is \<^verbatim>\<open>{ success: true, message: m }\<close>.
\<close>

record submission =
  col_id :: nat
  col_name :: jsval
  col_business :: jsval
  col_service :: jsval
  col_phone :: jsval
  col_message :: jsval
  col_timestamp :: nat
  col_status :: string

datatype reply =
    Failure string
  | Token "string option"
  | TokenMsg string "string option"
  | Submitted string nat
  | Rows "submission list"
  | Success string

record response =
  status :: nat
  json :: reply

text \<open>A middleware either answers the request itself or calls \<^verbatim>\<open>next()\<close>.\<close>

datatype gate = Next | Reject response

section \<open>Security middlewares\<close>

text \<open>
  In \<open>requireAdminAuth\<close> the test \<^verbatim>\<open>!header || !header.startsWith("Bearer ")\<close> is
  written out over the two ways a header can be falsy: it is not set, or it is the
  empty string. \<^verbatim>\<open>header.substring(7)\<close> drops the seven characters of the scheme.
\<close>

subsection \<open>\<^verbatim>\<open>src/server.js\<close>\<close>

definition requireApiKey_pg :: "env \<Rightarrow> request \<Rightarrow> gate" where
  "requireApiKey_pg e req =
     (let key = js_or (of_env (x_api_key req)) (query_apiKey req) in
      if \<not> truthy key then
        Reject \<lparr>status = 401, json = Failure ''API key required''\<rparr>
      else if \<not> strict_eq key (API_KEY e) then
        Reject \<lparr>status = 403, json = Failure ''Invalid API key''\<rparr>
      else Next)"

definition requireAdminAuth_pg :: "env \<Rightarrow> request \<Rightarrow> gate" where
  "requireAdminAuth_pg e req =
     (case authorization req of
        None \<Rightarrow> Reject \<lparr>status = 401, json = Failure ''Admin authentication required''\<rparr>
      | Some header \<Rightarrow>
          if header = [] \<or> \<not> prefix ''Bearer '' header then
            Reject \<lparr>status = 401, json = Failure ''Admin authentication required''\<rparr>
          else
            let token = drop 7 header in
            if \<not> strict_eq (JStr token) (ADMIN_PASSWORD e) then
              Reject \<lparr>status = 403, json = Failure ''Invalid admin credentials''\<rparr>
            else Next)"

subsection \<open>\<^verbatim>\<open>src/unnamed/part_000\<close>\<close>

definition requireApiKey_sqlite :: "env \<Rightarrow> request \<Rightarrow> gate" where
  "requireApiKey_sqlite e req =
     (let apiKey = js_or (of_env (x_api_key req)) (query_apiKey req) in
      if \<not> truthy apiKey then
        Reject \<lparr>status = 401, json = Failure ''API key required''\<rparr>
      else if \<not> strict_eq apiKey (API_KEY e) then
        Reject \<lparr>status = 403, json = Failure ''Invalid API key''\<rparr>
      else Next)"

definition requireAdminAuth_sqlite :: "env \<Rightarrow> request \<Rightarrow> gate" where
  "requireAdminAuth_sqlite e req =
     (case authorization req of
        None \<Rightarrow> Reject \<lparr>status = 401, json = Failure ''Admin authentication required''\<rparr>
      | Some authHeader \<Rightarrow>
          if authHeader = [] \<or> \<not> prefix ''Bearer '' authHeader then
            Reject \<lparr>status = 401, json = Failure ''Admin authentication required''\<rparr>
          else
            let token = drop 7 authHeader in
            if \<not> strict_eq (JStr token) (ADMIN_PASSWORD e) then
              Reject \<lparr>status = 403, json = Failure ''Invalid admin credentials''\<rparr>
            else Next)"

section \<open>The submission store\<close>

text \<open>
  Both files keep one table, created by the \<^verbatim>\<open>CREATE TABLE IF NOT EXISTS submissions\<close>
  statement: \<^verbatim>\<open>id\<close> is generated (\<^verbatim>\<open>SERIAL PRIMARY KEY\<close>, \<^verbatim>\<open>INTEGER PRIMARY KEY
  AUTOINCREMENT\<close>), \<^verbatim>\<open>timestamp\<close> defaults to the clock of the store and \<^verbatim>\<open>status\<close> to
  \<^verbatim>\<open>'new'\<close>. The handlers use three statements. A row keeps the parameter values as the
  handler binds them; a timestamp is a reading of the store's clock.
\<close>

record store =
  rows :: "submission list"
  next_id :: nat

text \<open>\<^verbatim>\<open>INSERT INTO submissions (name, business, service, phone, message) VALUES (...)\<close>,
  answering the generated id (\<^verbatim>\<open>RETURNING id\<close>, \<^verbatim>\<open>this.lastID\<close>).\<close>

definition db_insert ::
  "store \<Rightarrow> nat \<Rightarrow> jsval \<Rightarrow> jsval \<Rightarrow> jsval \<Rightarrow> jsval \<Rightarrow> jsval \<Rightarrow> store \<times> nat" where
  "db_insert st now n b s p m =
     (st\<lparr>rows := rows st @
           [\<lparr>col_id = next_id st, col_name = n, col_business = b, col_service = s,
             col_phone = p, col_message = m, col_timestamp = now, col_status = ''new''\<rparr>],
         next_id := Suc (next_id st)\<rparr>,
      next_id st)"

text \<open>\<^verbatim>\<open>SELECT * FROM submissions ORDER BY timestamp DESC\<close>. The statement leaves the
  order of rows with equal timestamps to the store; the model fixes one.\<close>

definition db_select :: "store \<Rightarrow> submission list" where
  "db_select st = rev (sort_key col_timestamp (rows st))"

text \<open>
  \<^verbatim>\<open>DELETE FROM submissions WHERE id = ?\<close>, answering the number of rows deleted
  (\<^verbatim>\<open>rowCount\<close>, \<^verbatim>\<open>this.changes\<close>). The parameter is the text of the path segment; the
  store compares it with the integer column through its own reading \<open>as_id\<close> of a text
  as an integer, which is a parameter of the model.
\<close>

definition db_delete :: "(string \<Rightarrow> nat option) \<Rightarrow> store \<Rightarrow> string \<Rightarrow> store \<times> nat" where
  "db_delete as_id st p =
     (st\<lparr>rows := filter (\<lambda>r. as_id p \<noteq> Some (col_id r)) (rows st)\<rparr>,
      length (filter (\<lambda>r. as_id p = Some (col_id r)) (rows st)))"

text \<open>The primary key: ids are unique, and the generator is ahead of every id in use.\<close>

definition store_inv :: "store \<Rightarrow> bool" where
  "store_inv st \<longleftrightarrow>
     distinct (map col_id (rows st)) \<and> (\<forall>r \<in> set (rows st). col_id r < next_id st)"

text \<open>
  A statement can fail, whatever the state of the table. How a call to the store ends is
  an input of the model. \<^verbatim>\<open>pool.query\<close> returns a promise that resolves or rejects;
  the \<^verbatim>\<open>sqlite3\<close> methods call back, with or without an error, or throw before they
  return.
\<close>

datatype pg_outcome = Resolves | Rejects

datatype sqlite_outcome = Calls_back | Calls_back_err | Throws

section \<open>The notifier\<close>

record mail =
  mail_from :: "string option"
  mail_to :: "string option"
  subject :: string
  html :: string

text \<open>How \<^verbatim>\<open>transporter.sendMail\<close> ends: the message is sent, the send fails, or it is
  still pending.\<close>

datatype send_outcome = Sent | Send_fails | Send_pending

text \<open>A line written with \<^verbatim>\<open>console.log\<close> or \<^verbatim>\<open>console.error\<close>, by its first argument.\<close>

datatype log_line = Log string | Error string

text \<open>Strings are sequences of bytes; the characters outside ASCII are in UTF-8.\<close>

definition nl :: string where "nl = [CHR 0x0A]"
definition dq :: string where "dq = [CHR 0x22]"
definition direct_hit :: string where "direct_hit = [CHR 0xF0, CHR 0x9F, CHR 0x8E, CHR 0xAF]"
definition bust :: string where "bust = [CHR 0xF0, CHR 0x9F, CHR 0x91, CHR 0xA4]"
definition office :: string where "office = [CHR 0xF0, CHR 0x9F, CHR 0x8F, CHR 0xA2]"
definition mobile :: string where "mobile = [CHR 0xF0, CHR 0x9F, CHR 0x93, CHR 0xB1]"
definition speech :: string where "speech = [CHR 0xF0, CHR 0x9F, CHR 0x92, CHR 0xAC]"
definition cross_mark :: string where "cross_mark = [CHR 0xE2, CHR 0x9D, CHR 0x8C]"

text \<open>\<^verbatim>\<open>ToString\<close> of a generated id, a non-negative integer: its decimal digits.\<close>

fun dec :: "nat \<Rightarrow> string" where
  "dec n = (if n < 10 then [''0123456789'' ! n] else dec (n div 10) @ [''0123456789'' ! (n mod 10)])"

declare dec.simps [simp del]

definition bind_err :: "js_error + 'a \<Rightarrow> ('a \<Rightarrow> js_error + 'b) \<Rightarrow> js_error + 'b" where
  "bind_err r f = (case r of Inl e \<Rightarrow> Inl e | Inr x \<Rightarrow> f x)"

section \<open>Handlers\<close>

text \<open>
  What serving one request leaves behind: the response sent (or the exception that left
  the handler before any response was sent), the table, the messages handed to
  \<^verbatim>\<open>transporter.sendMail\<close> and the console lines.
\<close>

record result =
  answer :: "js_error + response"
  db :: store
  outbox :: "mail list"
  console :: "log_line list"

subsection \<open>\<^verbatim>\<open>src/server.js\<close>\<close>

definition login_pg :: "env \<Rightarrow> request \<Rightarrow> response" where
  "login_pg e req =
     (let password = field req ''password'' in
      if \<not> truthy password then \<lparr>status = 400, json = Failure ''Password required''\<rparr>
      else if \<not> strict_eq password (ADMIN_PASSWORD e) then
        \<lparr>status = 401, json = Failure ''Invalid password''\<rparr>
      else \<lparr>status = 200, json = Token (ADMIN_PASSWORD e)\<rparr>)"

definition subject_pg :: "string \<Rightarrow> string" where
  "subject_pg b = concat [direct_hit, '' New Lead: '', b]"

definition html_pg :: "string \<Rightarrow> string \<Rightarrow> string \<Rightarrow> string \<Rightarrow> string \<Rightarrow> string" where
  "html_pg n b s p m =
     concat
       [nl,
        ''        <h2>New Contact Submission</h2>'', nl,
        ''        <p><strong>Name:</strong> '', n, ''</p>'', nl,
        ''        <p><strong>Business:</strong> '', b, ''</p>'', nl,
        ''        <p><strong>Service:</strong> '', s, ''</p>'', nl,
        ''        <p><strong>Phone:</strong> '', p, ''</p>'', nl,
        ''        <p><strong>Message:</strong> '', m, ''</p>'', nl,
        ''      '']"

text \<open>The object passed to \<^verbatim>\<open>sendMail\<close>; each interpolation is a \<^verbatim>\<open>ToString\<close>, in the
  order of the source.\<close>

definition mailOptions_pg ::
  "env \<Rightarrow> jsval \<Rightarrow> jsval \<Rightarrow> jsval \<Rightarrow> jsval \<Rightarrow> jsval \<Rightarrow> js_error + mail" where
  "mailOptions_pg e name business service phone message =
     bind_err (js_to_string business) (\<lambda>b0.
     bind_err (js_to_string name) (\<lambda>n.
     bind_err (js_to_string business) (\<lambda>b.
     bind_err (js_to_string service) (\<lambda>s.
     bind_err (js_to_string phone) (\<lambda>p.
     bind_err (js_to_string message) (\<lambda>m.
       Inr \<lparr>mail_from = EMAIL_USER e, mail_to = EMAIL_USER e,
            subject = subject_pg b0, html = html_pg n b s p m\<rparr>))))))"

text \<open>
  \<^verbatim>\<open>POST /api/contact\<close>. The promise that \<^verbatim>\<open>sendMail\<close> returns is dropped: how the send
  ends (\<open>sm\<close>) reaches neither the response nor the console. An exception inside the
  guarded block, a rejected query or a failed interpolation, is logged and answered
  with status 500.
\<close>

definition contact_pg ::
  "env \<Rightarrow> store \<Rightarrow> pg_outcome \<Rightarrow> nat \<Rightarrow> send_outcome \<Rightarrow> request \<Rightarrow> result" where
  "contact_pg e st q now sm req =
     (let name = field req ''name''; business = field req ''business'';
          service = field req ''service''; phone = field req ''phone'';
          message = field req ''message'' in
      if \<not> truthy name \<or> \<not> truthy business \<or> \<not> truthy service \<or> \<not> truthy phone then
        \<lparr>answer = Inr \<lparr>status = 400, json = Failure ''All fields required''\<rparr>,
         db = st, outbox = [], console = []\<rparr>
      else
        (case q of
           Rejects \<Rightarrow>
             \<lparr>answer = Inr \<lparr>status = 500, json = Failure ''Server error''\<rparr>,
              db = st, outbox = [], console = [Log (cross_mark @ '' Contact Error:'')]\<rparr>
         | Resolves \<Rightarrow>
             (case db_insert st now name business service phone (js_or message (JStr [])) of
                (st', submissionId) \<Rightarrow>
                  (case mailOptions_pg e name business service phone message of
                     Inl err \<Rightarrow>
                       \<lparr>answer = Inr \<lparr>status = 500, json = Failure ''Server error''\<rparr>,
                        db = st', outbox = [],
                        console = [Log (cross_mark @ '' Contact Error:'')]\<rparr>
                   | Inr options \<Rightarrow>
                       \<lparr>answer = Inr \<lparr>status = 200,
                                       json = Submitted ''Form submitted!'' submissionId\<rparr>,
                        db = st', outbox = [options], console = []\<rparr>))))"

text \<open>\<^verbatim>\<open>GET /api/submissions\<close>\<close>

definition list_pg :: "store \<Rightarrow> pg_outcome \<Rightarrow> result" where
  "list_pg st q =
     (case q of
        Resolves \<Rightarrow>
          \<lparr>answer = Inr \<lparr>status = 200, json = Rows (db_select st)\<rparr>,
           db = st, outbox = [], console = []\<rparr>
      | Rejects \<Rightarrow>
          \<lparr>answer = Inr \<lparr>status = 500, json = Failure ''Database error''\<rparr>,
           db = st, outbox = [], console = []\<rparr>)"

text \<open>\<^verbatim>\<open>DELETE /api/submissions/:id\<close>\<close>

definition delete_pg :: "(string \<Rightarrow> nat option) \<Rightarrow> store \<Rightarrow> pg_outcome \<Rightarrow> request \<Rightarrow> result" where
  "delete_pg as_id st q req =
     (case q of
        Resolves \<Rightarrow>
          (case db_delete as_id st (params_id req) of
             (st', rowCount) \<Rightarrow>
               if rowCount = 0 then
                 \<lparr>answer = Inr \<lparr>status = 404, json = Failure ''Not found''\<rparr>,
                  db = st', outbox = [], console = []\<rparr>
               else
                 \<lparr>answer = Inr \<lparr>status = 200, json = Success ''Deleted''\<rparr>,
                  db = st', outbox = [], console = []\<rparr>)
      | Rejects \<Rightarrow>
          \<lparr>answer = Inr \<lparr>status = 500, json = Failure ''Database error''\<rparr>,
           db = st, outbox = [], console = []\<rparr>)"

text \<open>The routes: \<^verbatim>\<open>app.post(path, requireApiKey, handler)\<close> and its like run the
  middleware first; what it rejects never reaches the handler.\<close>

definition rejected :: "response \<Rightarrow> store \<Rightarrow> result" where
  "rejected r st = \<lparr>answer = Inr r, db = st, outbox = [], console = []\<rparr>"

definition route_login_pg :: "env \<Rightarrow> store \<Rightarrow> request \<Rightarrow> result" where
  "route_login_pg e st req =
     (case requireApiKey_pg e req of
        Reject r \<Rightarrow> rejected r st
      | Next \<Rightarrow> \<lparr>answer = Inr (login_pg e req), db = st, outbox = [], console = []\<rparr>)"

definition route_contact_pg ::
  "env \<Rightarrow> store \<Rightarrow> pg_outcome \<Rightarrow> nat \<Rightarrow> send_outcome \<Rightarrow> request \<Rightarrow> result" where
  "route_contact_pg e st q now sm req =
     (case requireApiKey_pg e req of
        Reject r \<Rightarrow> rejected r st
      | Next \<Rightarrow> contact_pg e st q now sm req)"

definition route_list_pg :: "env \<Rightarrow> store \<Rightarrow> pg_outcome \<Rightarrow> request \<Rightarrow> result" where
  "route_list_pg e st q req =
     (case requireAdminAuth_pg e req of
        Reject r \<Rightarrow> rejected r st
      | Next \<Rightarrow> list_pg st q)"

definition route_delete_pg ::
  "env \<Rightarrow> (string \<Rightarrow> nat option) \<Rightarrow> store \<Rightarrow> pg_outcome \<Rightarrow> request \<Rightarrow> result" where
  "route_delete_pg e as_id st q req =
     (case requireAdminAuth_pg e req of
        Reject r \<Rightarrow> rejected r st
      | Next \<Rightarrow> delete_pg as_id st q req)"

subsection \<open>\<^verbatim>\<open>src/unnamed/part_000\<close>\<close>

definition login_sqlite :: "env \<Rightarrow> request \<Rightarrow> response" where
  "login_sqlite e req =
     (let password = field req ''password'' in
      if \<not> truthy password then \<lparr>status = 400, json = Failure ''Password required''\<rparr>
      else if \<not> strict_eq password (ADMIN_PASSWORD e) then
        \<lparr>status = 401, json = Failure ''Invalid password''\<rparr>
      else \<lparr>status = 200, json = TokenMsg ''Login successful'' (ADMIN_PASSWORD e)\<rparr>)"

definition subject_sqlite :: "string \<Rightarrow> string" where
  "subject_sqlite b = concat [direct_hit, '' New Lead: '', b, '' - MarketBloom Studio'']"

definition html_sqlite ::
  "string \<Rightarrow> string \<Rightarrow> string \<Rightarrow> string \<Rightarrow> string \<Rightarrow> string \<Rightarrow> string \<Rightarrow> string" where
  "html_sqlite n b s p m i t =
     concat
       [nl,
        ''            <div style='', dq,
        ''font-family: Arial, sans-serif; max-width: 600px; margin: 0 auto;'', dq, ''>'', nl,
        ''              <h2 style='', dq,
        ''border-bottom: 2px solid #facc6b; padding-bottom: 10px;'', dq, ''>'', nl,
        ''                New Contact Form Submission'', nl,
        ''              </h2>'', nl,
        ''              '', nl,
        ''              <p><strong>'', bust, '' Name:</strong> '', n, ''</p>'', nl,
        ''              <p><strong>'', office, '' Business:</strong> '', b, ''</p>'', nl,
        ''              <p><strong>'', direct_hit, '' Service:</strong> '', s, ''</p>'', nl,
        ''              <p><strong>'', mobile, '' Phone:</strong> '', p, ''</p>'', nl,
        ''              <p><strong>'', speech, '' Message:</strong> '', m, ''</p>'', nl,
        nl,
        ''              <p><strong>Submission ID:</strong> '', i, ''</p>'', nl,
        ''              <p><strong>Time:</strong> '', t, ''</p>'', nl,
        ''            </div>'', nl,
        ''          '']"

text \<open>
  \<open>mailOptions\<close>. \<open>time\<close> is the text that
  \<^verbatim>\<open>new Date().toLocaleString('en-IN', { timeZone: 'Asia/Kolkata' })\<close> gives when the
  message is built.
\<close>

definition mailOptions_sqlite ::
  "env \<Rightarrow> jsval \<Rightarrow> jsval \<Rightarrow> jsval \<Rightarrow> jsval \<Rightarrow> jsval \<Rightarrow> nat \<Rightarrow> string \<Rightarrow> js_error + mail" where
  "mailOptions_sqlite e name business service phone message submissionId time =
     bind_err (js_to_string business) (\<lambda>b0.
     bind_err (js_to_string name) (\<lambda>n.
     bind_err (js_to_string business) (\<lambda>b.
     bind_err (js_to_string service) (\<lambda>s.
     bind_err (js_to_string phone) (\<lambda>p.
     bind_err (js_to_string (js_or message (JStr ''No additional message''))) (\<lambda>m.
       Inr \<lparr>mail_from = EMAIL_USER e, mail_to = EMAIL_USER e,
            subject = subject_sqlite b0,
            html = html_sqlite n b s p m (dec submissionId) time\<rparr>))))))"

text \<open>What the callback given to \<^verbatim>\<open>sendMail\<close> writes, once the send has ended.\<close>

fun mail_callback :: "send_outcome \<Rightarrow> log_line list" where
  "mail_callback Send_fails = [Error ''Email sending failed:'']"
| "mail_callback Sent = [Log ''Email sent successfully.'']"
| "mail_callback Send_pending = []"

text \<open>
  \<^verbatim>\<open>POST /api/contact\<close>. The insert runs through \<^verbatim>\<open>db.run\<close> with a callback; the block
  that guards the handler catches what \<^verbatim>\<open>db.run\<close> throws before it returns, and
  nothing that is thrown later, inside the callback.
\<close>

definition contact_sqlite ::
  "env \<Rightarrow> store \<Rightarrow> sqlite_outcome \<Rightarrow> nat \<Rightarrow> send_outcome \<Rightarrow> string \<Rightarrow> request \<Rightarrow> result" where
  "contact_sqlite e st q now sm time req =
     (let name = field req ''name''; business = field req ''business'';
          service = field req ''service''; phone = field req ''phone'';
          message = field req ''message'';
          received = [Log ''Received form submission:''] in
      if \<not> truthy name \<or> \<not> truthy business \<or> \<not> truthy service \<or> \<not> truthy phone then
        \<lparr>answer = Inr \<lparr>status = 400, json = Failure ''Please fill in all required fields''\<rparr>,
         db = st, outbox = [], console = received\<rparr>
      else
        (case q of
           Throws \<Rightarrow>
             \<lparr>answer = Inr \<lparr>status = 500, json = Failure ''Internal server error''\<rparr>,
              db = st, outbox = [],
              console = received @ [Error ''Error processing submission:'']\<rparr>
         | Calls_back_err \<Rightarrow>
             \<lparr>answer = Inr \<lparr>status = 500, json = Failure ''Database error''\<rparr>,
              db = st, outbox = [], console = received @ [Error ''Database error:'']\<rparr>
         | Calls_back \<Rightarrow>
             (case db_insert st now name business service phone (js_or message (JStr [])) of
                (st', submissionId) \<Rightarrow>
                  (let saved = received @ [Log ''Submission saved with ID:''];
                       submitted =
                         \<lparr>status = 200,
                          json = Submitted
                            ''Form submitted successfully! We will contact you soon.''
                            submissionId\<rparr> in
                   if truthy (of_env (EMAIL_USER e)) \<and> truthy (of_env (EMAIL_PASS e)) then
                     (case mailOptions_sqlite e name business service phone message
                             submissionId time of
                        Inl err \<Rightarrow>
                          \<lparr>answer = Inl err, db = st', outbox = [], console = saved\<rparr>
                      | Inr mailOptions \<Rightarrow>
                          \<lparr>answer = Inr submitted, db = st', outbox = [mailOptions],
                           console = saved @ mail_callback sm\<rparr>)
                   else
                     \<lparr>answer = Inr submitted, db = st', outbox = [], console = saved\<rparr>))))"

text \<open>\<^verbatim>\<open>GET /api/submissions\<close>; no block guards the call to \<^verbatim>\<open>db.all\<close>.\<close>

definition list_sqlite :: "store \<Rightarrow> sqlite_outcome \<Rightarrow> result" where
  "list_sqlite st q =
     (case q of
        Calls_back \<Rightarrow>
          \<lparr>answer = Inr \<lparr>status = 200, json = Rows (db_select st)\<rparr>,
           db = st, outbox = [], console = []\<rparr>
      | Calls_back_err \<Rightarrow>
          \<lparr>answer = Inr \<lparr>status = 500, json = Failure ''Database error''\<rparr>,
           db = st, outbox = [], console = [Error ''Database error:'']\<rparr>
      | Throws \<Rightarrow>
          \<lparr>answer = Inl DriverError, db = st, outbox = [], console = []\<rparr>)"

text \<open>\<^verbatim>\<open>DELETE /api/submissions/:id\<close>; no block guards the call to \<^verbatim>\<open>db.run\<close>.\<close>

definition delete_sqlite ::
  "(string \<Rightarrow> nat option) \<Rightarrow> store \<Rightarrow> sqlite_outcome \<Rightarrow> request \<Rightarrow> result" where
  "delete_sqlite as_id st q req =
     (let id = params_id req in
      case q of
        Calls_back \<Rightarrow>
          (case db_delete as_id st id of
             (st', changes) \<Rightarrow>
               if changes = 0 then
                 \<lparr>answer = Inr \<lparr>status = 404, json = Failure ''Submission not found''\<rparr>,
                  db = st', outbox = [], console = []\<rparr>
               else
                 \<lparr>answer = Inr \<lparr>status = 200,
                                 json = Success ''Submission deleted successfully''\<rparr>,
                  db = st', outbox = [], console = []\<rparr>)
      | Calls_back_err \<Rightarrow>
          \<lparr>answer = Inr \<lparr>status = 500, json = Failure ''Database error''\<rparr>,
           db = st, outbox = [], console = [Error ''Database error:'']\<rparr>
      | Throws \<Rightarrow>
          \<lparr>answer = Inl DriverError, db = st, outbox = [], console = []\<rparr>)"

definition route_login_sqlite :: "env \<Rightarrow> store \<Rightarrow> request \<Rightarrow> result" where
  "route_login_sqlite e st req =
     (case requireApiKey_sqlite e req of
        Reject r \<Rightarrow> rejected r st
      | Next \<Rightarrow> \<lparr>answer = Inr (login_sqlite e req), db = st, outbox = [], console = []\<rparr>)"

definition route_contact_sqlite ::
  "env \<Rightarrow> store \<Rightarrow> sqlite_outcome \<Rightarrow> nat \<Rightarrow> send_outcome \<Rightarrow> string \<Rightarrow> request \<Rightarrow> result" where
  "route_contact_sqlite e st q now sm time req =
     (case requireApiKey_sqlite e req of
        Reject r \<Rightarrow> rejected r st
      | Next \<Rightarrow> contact_sqlite e st q now sm time req)"

definition route_list_sqlite :: "env \<Rightarrow> store \<Rightarrow> sqlite_outcome \<Rightarrow> request \<Rightarrow> result" where
  "route_list_sqlite e st q req =
     (case requireAdminAuth_sqlite e req of
        Reject r \<Rightarrow> rejected r st
      | Next \<Rightarrow> list_sqlite st q)"

definition route_delete_sqlite ::
  "env \<Rightarrow> (string \<Rightarrow> nat option) \<Rightarrow> store \<Rightarrow> sqlite_outcome \<Rightarrow> request \<Rightarrow> result" where
  "route_delete_sqlite e as_id st q req =
     (case requireAdminAuth_sqlite e req of
        Reject r \<Rightarrow> rejected r st
      | Next \<Rightarrow> delete_sqlite as_id st q req)"

section \<open>Sample configurations, requests and tables\<close>

definition env_ex :: env where
  "env_ex = \<lparr>API_KEY = Some ''k3y'', ADMIN_PASSWORD = Some ''s3cret'',
             EMAIL_USER = Some ''owner@example.org'', EMAIL_PASS = Some ''app-pass''\<rparr>"

definition blank :: request where
  "blank = \<lparr>x_api_key = None, authorization = None, query_apiKey = JUndefined,
            body = Map.empty, params_id = []\<rparr>"

definition lead :: "string \<rightharpoonup> jsval" where
  "lead = [''name'' \<mapsto> JStr ''A'', ''business'' \<mapsto> JStr ''B'',
           ''service'' \<mapsto> JStr ''C'', ''phone'' \<mapsto> JStr ''D'']"

definition row1 :: submission where
  "row1 = \<lparr>col_id = 1, col_name = JStr ''Ann'', col_business = JStr ''Bakery'',
            col_service = JStr ''Ads'', col_phone = JStr ''555'', col_message = JStr [],
            col_timestamp = 10, col_status = ''new''\<rparr>"

definition row2 :: submission where
  "row2 = \<lparr>col_id = 2, col_name = JStr ''Bob'', col_business = JStr ''Cafe'',
            col_service = JStr ''SEO'', col_phone = JStr ''777'', col_message = JStr ''hi'',
            col_timestamp = 20, col_status = ''new''\<rparr>"

definition store_ex :: store where
  "store_ex = \<lparr>rows = [row1, row2], next_id = 3\<rparr>"

definition as_id_ex :: "string \<Rightarrow> nat option" where
  "as_id_ex = map_of [(''1'', 1), (''2'', 2), (''3'', 3)]"

text \<open>A configuration whose admin secret is set to the empty string.\<close>

definition env_blank_secret :: env where
  "env_blank_secret = env_ex\<lparr>ADMIN_PASSWORD := Some []\<rparr>"

text \<open>\<^verbatim>\<open>POST /api/contact\<close> with the key and the body
  \<^verbatim>\<open>{"name":"A","business":"B","service":"C","phone":"D"}\<close>.\<close>

definition post_lead :: request where
  "post_lead = blank\<lparr>x_api_key := Some ''k3y'', body := lead\<rparr>"



section \<open>The two files authorise alike\<close>

text \<open>
  C10. The API-key gate and the admin bearer gate of \<^verbatim>\<open>src/server.js\<close> and of
  \<^verbatim>\<open>src/unnamed/part_000\<close> take the same decision on every request under every
  configuration: the same status and the same body when they reject, and \<^verbatim>\<open>next()\<close> in
  the same cases.
\<close>

theorem gates_equivalent:
  "requireApiKey_pg e req = requireApiKey_sqlite e req \<and>
   requireAdminAuth_pg e req = requireAdminAuth_sqlite e req"
  by (simp add: requireApiKey_pg_def requireApiKey_sqlite_def
                requireAdminAuth_pg_def requireAdminAuth_sqlite_def)

theorem gates_equivalent_witness:
  "requireAdminAuth_pg env_ex (blank\<lparr>authorization := Some ''Bearer s3cret''\<rparr>) = Next \<and>
   requireApiKey_pg env_ex (blank\<lparr>authorization := Some ''Bearer s3cret''\<rparr>) =
     Reject \<lparr>status = 401, json = Failure ''API key required''\<rparr>"
  using gates_equivalent [of env_ex "blank\<lparr>authorization := Some ''Bearer s3cret''\<rparr>"]
  by (simp add: requireApiKey_sqlite_def requireAdminAuth_sqlite_def js_or_def
                env_ex_def blank_def)

section \<open>What the gates decide\<close>

lemma prefix_Bearer: "prefix ''Bearer '' h \<longleftrightarrow> (\<exists>t. h = ''Bearer '' @ t)"
  by (auto simp: prefix_def)

lemma requireApiKey_no_key:
  assumes "x_api_key req = None \<or> x_api_key req = Some []"
    and "\<not> truthy (query_apiKey req)"
  shows "requireApiKey_pg e req = Reject \<lparr>status = 401, json = Failure ''API key required''\<rparr>"
  using assms by (auto simp: requireApiKey_pg_def js_or_def)

lemma requireApiKey_header:
  assumes "x_api_key req = Some k" and "k \<noteq> []"
  shows "requireApiKey_pg e req =
    (if API_KEY e = Some k then Next
     else Reject \<lparr>status = 403, json = Failure ''Invalid API key''\<rparr>)"
  using assms by (cases "API_KEY e") (auto simp: requireApiKey_pg_def js_or_def)

lemma requireApiKey_query:
  assumes "x_api_key req = None \<or> x_api_key req = Some []"
    and "truthy (query_apiKey req)"
  shows "requireApiKey_pg e req =
    (if strict_eq (query_apiKey req) (API_KEY e) then Next
     else Reject \<lparr>status = 403, json = Failure ''Invalid API key''\<rparr>)"
  using assms by (auto simp: requireApiKey_pg_def js_or_def)

lemma requireAdminAuth_no_bearer:
  assumes "\<forall>t. authorization req \<noteq> Some (''Bearer '' @ t)"
  shows "requireAdminAuth_pg e req =
    Reject \<lparr>status = 401, json = Failure ''Admin authentication required''\<rparr>"
proof (cases "authorization req")
  case None
  then show ?thesis by (simp add: requireAdminAuth_pg_def)
next
  case (Some h)
  with assms have "\<not> prefix ''Bearer '' h" unfolding prefix_Bearer by blast
  with Some show ?thesis by (simp add: requireAdminAuth_pg_def)
qed

lemma requireAdminAuth_bearer:
  assumes "authorization req = Some (''Bearer '' @ t)"
  shows "requireAdminAuth_pg e req =
    (if ADMIN_PASSWORD e = Some t then Next
     else Reject \<lparr>status = 403, json = Failure ''Invalid admin credentials''\<rparr>)"
proof -
  have "prefix ''Bearer '' (''Bearer '' @ t)" unfolding prefix_Bearer by blast
  moreover have "drop 7 (''Bearer '' @ t) = t" by simp
  ultimately show ?thesis using assms
    by (cases "ADMIN_PASSWORD e") (simp_all add: requireAdminAuth_pg_def Let_def)
qed

lemma sqlite_gates:
  "requireApiKey_sqlite = requireApiKey_pg" "requireAdminAuth_sqlite = requireAdminAuth_pg"
  by (simp_all add: fun_eq_iff requireApiKey_pg_def requireApiKey_sqlite_def
        requireAdminAuth_pg_def requireAdminAuth_sqlite_def)

text \<open>
  C1. On a protected route, a request without the credential is answered 401, a request
  whose credential differs from the configured secret is answered 403, and a request
  whose credential is the configured secret reaches the handler.

  For the API-key gate the credential is the \<^verbatim>\<open>x-api-key\<close> header when that is a non-empty
  string and the \<^verbatim>\<open>apiKey\<close> query parameter otherwise; it is absent when the header is
  missing or empty and the parameter is missing or empty. For the admin gate the
  credential is what follows \<^verbatim>\<open>Bearer \<close> in the \<^verbatim>\<open>Authorization\<close> header; it is absent
  when the header is missing or does not start with \<^verbatim>\<open>Bearer \<close>. A rejected request gets
  the answer of the gate and leaves the table, the outbox and the console as they were:
  the API-key gate stands before \<^verbatim>\<open>/api/contact\<close> and \<^verbatim>\<open>/api/admin/login\<close>, the admin
  gate before the listing and the deletion of submissions.
\<close>

theorem gates_decide:
  "(\<forall>gate \<in> {requireApiKey_pg, requireApiKey_sqlite}.
      ((x_api_key req = None \<or> x_api_key req = Some []) \<and> \<not> truthy (query_apiKey req) \<longrightarrow>
         gate e req = Reject \<lparr>status = 401, json = Failure ''API key required''\<rparr>) \<and>
      (\<forall>k. x_api_key req = Some k \<and> k \<noteq> [] \<longrightarrow>
         gate e req =
           (if API_KEY e = Some k then Next
            else Reject \<lparr>status = 403, json = Failure ''Invalid API key''\<rparr>)) \<and>
      ((x_api_key req = None \<or> x_api_key req = Some []) \<and> truthy (query_apiKey req) \<longrightarrow>
         gate e req =
           (if strict_eq (query_apiKey req) (API_KEY e) then Next
            else Reject \<lparr>status = 403, json = Failure ''Invalid API key''\<rparr>))) \<and>
   (\<forall>gate \<in> {requireAdminAuth_pg, requireAdminAuth_sqlite}.
      ((\<forall>t. authorization req \<noteq> Some (''Bearer '' @ t)) \<longrightarrow>
         gate e req =
           Reject \<lparr>status = 401, json = Failure ''Admin authentication required''\<rparr>) \<and>
      (\<forall>t. authorization req = Some (''Bearer '' @ t) \<longrightarrow>
         gate e req =
           (if ADMIN_PASSWORD e = Some t then Next
            else Reject \<lparr>status = 403, json = Failure ''Invalid admin credentials''\<rparr>))) \<and>
   (\<forall>r. requireApiKey_pg e req = Reject r \<longrightarrow>
      route_contact_pg e st q now sm req = rejected r st \<and>
      route_login_pg e st req = rejected r st) \<and>
   (requireApiKey_pg e req = Next \<longrightarrow>
      route_contact_pg e st q now sm req = contact_pg e st q now sm req \<and>
      route_login_pg e st req =
        \<lparr>answer = Inr (login_pg e req), db = st, outbox = [], console = []\<rparr>) \<and>
   (\<forall>r. requireAdminAuth_pg e req = Reject r \<longrightarrow>
      route_list_pg e st q req = rejected r st \<and>
      route_delete_pg e as_id st q req = rejected r st) \<and>
   (requireAdminAuth_pg e req = Next \<longrightarrow>
      route_list_pg e st q req = list_pg st q \<and>
      route_delete_pg e as_id st q req = delete_pg as_id st q req) \<and>
   (\<forall>r. requireApiKey_sqlite e req = Reject r \<longrightarrow>
      route_contact_sqlite e st q' now sm time req = rejected r st \<and>
      route_login_sqlite e st req = rejected r st) \<and>
   (requireApiKey_sqlite e req = Next \<longrightarrow>
      route_contact_sqlite e st q' now sm time req = contact_sqlite e st q' now sm time req \<and>
      route_login_sqlite e st req =
        \<lparr>answer = Inr (login_sqlite e req), db = st, outbox = [], console = []\<rparr>) \<and>
   (\<forall>r. requireAdminAuth_sqlite e req = Reject r \<longrightarrow>
      route_list_sqlite e st q' req = rejected r st \<and>
      route_delete_sqlite e as_id st q' req = rejected r st) \<and>
   (requireAdminAuth_sqlite e req = Next \<longrightarrow>
      route_list_sqlite e st q' req = list_sqlite st q' \<and>
      route_delete_sqlite e as_id st q' req = delete_sqlite as_id st q' req)"
proof -
  have api: "\<forall>gate \<in> {requireApiKey_pg, requireApiKey_sqlite}.
      ((x_api_key req = None \<or> x_api_key req = Some []) \<and> \<not> truthy (query_apiKey req) \<longrightarrow>
         gate e req = Reject \<lparr>status = 401, json = Failure ''API key required''\<rparr>) \<and>
      (\<forall>k. x_api_key req = Some k \<and> k \<noteq> [] \<longrightarrow>
         gate e req =
           (if API_KEY e = Some k then Next
            else Reject \<lparr>status = 403, json = Failure ''Invalid API key''\<rparr>)) \<and>
      ((x_api_key req = None \<or> x_api_key req = Some []) \<and> truthy (query_apiKey req) \<longrightarrow>
         gate e req =
           (if strict_eq (query_apiKey req) (API_KEY e) then Next
            else Reject \<lparr>status = 403, json = Failure ''Invalid API key''\<rparr>))"
    unfolding sqlite_gates
    using requireApiKey_no_key [of req e] requireApiKey_header [of req _ e]
      requireApiKey_query [of req e]
    by blast
  have admin: "\<forall>gate \<in> {requireAdminAuth_pg, requireAdminAuth_sqlite}.
      ((\<forall>t. authorization req \<noteq> Some (''Bearer '' @ t)) \<longrightarrow>
         gate e req =
           Reject \<lparr>status = 401, json = Failure ''Admin authentication required''\<rparr>) \<and>
      (\<forall>t. authorization req = Some (''Bearer '' @ t) \<longrightarrow>
         gate e req =
           (if ADMIN_PASSWORD e = Some t then Next
            else Reject \<lparr>status = 403, json = Failure ''Invalid admin credentials''\<rparr>))"
    unfolding sqlite_gates
    using requireAdminAuth_no_bearer [of req e] requireAdminAuth_bearer [of req _ e]
    by blast
  have routes_pg:
    "\<forall>r. requireApiKey_pg e req = Reject r \<longrightarrow>
      route_contact_pg e st q now sm req = rejected r st \<and>
      route_login_pg e st req = rejected r st"
    "requireApiKey_pg e req = Next \<longrightarrow>
      route_contact_pg e st q now sm req = contact_pg e st q now sm req \<and>
      route_login_pg e st req =
        \<lparr>answer = Inr (login_pg e req), db = st, outbox = [], console = []\<rparr>"
    "\<forall>r. requireAdminAuth_pg e req = Reject r \<longrightarrow>
      route_list_pg e st q req = rejected r st \<and>
      route_delete_pg e as_id st q req = rejected r st"
    "requireAdminAuth_pg e req = Next \<longrightarrow>
      route_list_pg e st q req = list_pg st q \<and>
      route_delete_pg e as_id st q req = delete_pg as_id st q req"
    by (simp_all add: route_contact_pg_def route_login_pg_def route_list_pg_def
          route_delete_pg_def)
  have routes_sqlite:
    "\<forall>r. requireApiKey_sqlite e req = Reject r \<longrightarrow>
      route_contact_sqlite e st q' now sm time req = rejected r st \<and>
      route_login_sqlite e st req = rejected r st"
    "requireApiKey_sqlite e req = Next \<longrightarrow>
      route_contact_sqlite e st q' now sm time req = contact_sqlite e st q' now sm time req \<and>
      route_login_sqlite e st req =
        \<lparr>answer = Inr (login_sqlite e req), db = st, outbox = [], console = []\<rparr>"
    "\<forall>r. requireAdminAuth_sqlite e req = Reject r \<longrightarrow>
      route_list_sqlite e st q' req = rejected r st \<and>
      route_delete_sqlite e as_id st q' req = rejected r st"
    "requireAdminAuth_sqlite e req = Next \<longrightarrow>
      route_list_sqlite e st q' req = list_sqlite st q' \<and>
      route_delete_sqlite e as_id st q' req = delete_sqlite as_id st q' req"
    by (simp_all add: route_contact_sqlite_def route_login_sqlite_def route_list_sqlite_def
          route_delete_sqlite_def)
  from api admin routes_pg routes_sqlite show ?thesis by (intro conjI)
qed

theorem gates_decide_witness:
  "requireApiKey_pg env_ex blank =
     Reject \<lparr>status = 401, json = Failure ''API key required''\<rparr> \<and>
   requireApiKey_sqlite env_ex (blank\<lparr>x_api_key := Some ''k3y''\<rparr>) = Next \<and>
   requireApiKey_pg env_ex (blank\<lparr>query_apiKey := JStr ''other''\<rparr>) =
     Reject \<lparr>status = 403, json = Failure ''Invalid API key''\<rparr> \<and>
   requireAdminAuth_sqlite env_ex (blank\<lparr>authorization := Some ''Basic s3cret''\<rparr>) =
     Reject \<lparr>status = 401, json = Failure ''Admin authentication required''\<rparr> \<and>
   requireAdminAuth_pg env_ex (blank\<lparr>authorization := Some ''Bearer guess''\<rparr>) =
     Reject \<lparr>status = 403, json = Failure ''Invalid admin credentials''\<rparr> \<and>
   requireAdminAuth_pg env_ex (blank\<lparr>authorization := Some ''Bearer s3cret''\<rparr>) = Next"
  using gates_decide [where req = blank and e = env_ex]
    gates_decide [where req = "blank\<lparr>x_api_key := Some ''k3y''\<rparr>" and e = env_ex]
    gates_decide [where req = "blank\<lparr>query_apiKey := JStr ''other''\<rparr>" and e = env_ex]
    gates_decide [where req = "blank\<lparr>authorization := Some ''Basic s3cret''\<rparr>" and e = env_ex]
    gates_decide [where req = "blank\<lparr>authorization := Some ''Bearer guess''\<rparr>" and e = env_ex]
    gates_decide [where req = "blank\<lparr>authorization := Some ''Bearer s3cret''\<rparr>" and e = env_ex]
  by (simp add: blank_def env_ex_def)

section \<open>Contact submissions\<close>

lemma field_empty:
  "body req f = None \<or> body req f = Some (JStr []) \<Longrightarrow> \<not> truthy (field req f)"
  by (auto simp: field_def)

lemma contact_pg_invalid:
  assumes "\<not> truthy (field req ''name'') \<or> \<not> truthy (field req ''business'') \<or>
           \<not> truthy (field req ''service'') \<or> \<not> truthy (field req ''phone'')"
  shows "contact_pg e st q now sm req =
    \<lparr>answer = Inr \<lparr>status = 400, json = Failure ''All fields required''\<rparr>,
     db = st, outbox = [], console = []\<rparr>"
  using assms unfolding contact_pg_def Let_def by presburger

lemma contact_sqlite_invalid:
  assumes "\<not> truthy (field req ''name'') \<or> \<not> truthy (field req ''business'') \<or>
           \<not> truthy (field req ''service'') \<or> \<not> truthy (field req ''phone'')"
  shows "contact_sqlite e st q now sm time req =
    \<lparr>answer = Inr \<lparr>status = 400, json = Failure ''Please fill in all required fields''\<rparr>,
     db = st, outbox = [], console = [Log ''Received form submission:'']\<rparr>"
  using assms unfolding contact_sqlite_def Let_def by presburger

lemma route_contact_pg_cases:
  "route_contact_pg e st q now sm req =
     (case requireApiKey_pg e req of
        Reject r \<Rightarrow> rejected r st | Next \<Rightarrow> contact_pg e st q now sm req)"
  by (simp add: route_contact_pg_def)

lemma route_contact_sqlite_cases:
  "route_contact_sqlite e st q now sm time req =
     (case requireApiKey_sqlite e req of
        Reject r \<Rightarrow> rejected r st | Next \<Rightarrow> contact_sqlite e st q now sm time req)"
  by (simp add: route_contact_sqlite_def)

text \<open>
  C2. When one of \<^verbatim>\<open>name\<close>, \<^verbatim>\<open>business\<close>, \<^verbatim>\<open>service\<close>, \<^verbatim>\<open>phone\<close> is missing from the body
  or is the empty string, the contact handler answers 400 and the table is as it was.
  No insert is attempted: the handler's result is the same however a call to the store
  would have ended, whatever the clock and the notifier. Behind the API-key gate the
  same holds for the route: the table is unchanged, nothing is handed to the notifier,
  and a request that passes the gate is answered 400.
\<close>

theorem contact_rejects_missing_field:
  assumes "f \<in> {''name'', ''business'', ''service'', ''phone''}"
    and "body req f = None \<or> body req f = Some (JStr [])"
  shows "contact_pg e st q now sm req =
           \<lparr>answer = Inr \<lparr>status = 400, json = Failure ''All fields required''\<rparr>,
            db = st, outbox = [], console = []\<rparr> \<and>
         contact_pg e st q now sm req = contact_pg e st q2 now2 sm2 req \<and>
         contact_sqlite e st q' now sm time req =
           \<lparr>answer = Inr \<lparr>status = 400,
                           json = Failure ''Please fill in all required fields''\<rparr>,
            db = st, outbox = [], console = [Log ''Received form submission:'']\<rparr> \<and>
         contact_sqlite e st q' now sm time req = contact_sqlite e st q2' now2 sm2 time2 req \<and>
         db (route_contact_pg e st q now sm req) = st \<and>
         outbox (route_contact_pg e st q now sm req) = [] \<and>
         (requireApiKey_pg e req = Next \<longrightarrow>
            answer (route_contact_pg e st q now sm req) =
              Inr \<lparr>status = 400, json = Failure ''All fields required''\<rparr>) \<and>
         db (route_contact_sqlite e st q' now sm time req) = st \<and>
         outbox (route_contact_sqlite e st q' now sm time req) = [] \<and>
         (requireApiKey_sqlite e req = Next \<longrightarrow>
            answer (route_contact_sqlite e st q' now sm time req) =
              Inr \<lparr>status = 400, json = Failure ''Please fill in all required fields''\<rparr>)"
proof -
  from assms(2) have "\<not> truthy (field req f)" by (rule field_empty)
  with assms(1) have invalid:
    "\<not> truthy (field req ''name'') \<or> \<not> truthy (field req ''business'') \<or>
     \<not> truthy (field req ''service'') \<or> \<not> truthy (field req ''phone'')"
    by blast
  note pg = contact_pg_invalid [OF invalid]
  note sqlite = contact_sqlite_invalid [OF invalid]
  have "db (route_contact_pg e st q now sm req) = st"
    "outbox (route_contact_pg e st q now sm req) = []"
    "requireApiKey_pg e req = Next \<longrightarrow>
       answer (route_contact_pg e st q now sm req) =
         Inr \<lparr>status = 400, json = Failure ''All fields required''\<rparr>"
    by (simp_all add: route_contact_pg_cases pg rejected_def split: gate.split)
  moreover have "db (route_contact_sqlite e st q' now sm time req) = st"
    "outbox (route_contact_sqlite e st q' now sm time req) = []"
    "requireApiKey_sqlite e req = Next \<longrightarrow>
       answer (route_contact_sqlite e st q' now sm time req) =
         Inr \<lparr>status = 400, json = Failure ''Please fill in all required fields''\<rparr>"
    by (simp_all add: route_contact_sqlite_cases sqlite rejected_def split: gate.split)
  ultimately show ?thesis by (simp add: pg sqlite)
qed

theorem contact_rejects_missing_field_witness:
  "''phone'' \<in> {''name'', ''business'', ''service'', ''phone''} \<and>
   body (blank\<lparr>x_api_key := Some ''k3y'', body := lead(''phone'' \<mapsto> JStr [])\<rparr>) ''phone''
     = Some (JStr []) \<and>
   route_contact_pg env_ex store_ex Resolves 30 Sent
       (blank\<lparr>x_api_key := Some ''k3y'', body := lead(''phone'' \<mapsto> JStr [])\<rparr>) =
     \<lparr>answer = Inr \<lparr>status = 400, json = Failure ''All fields required''\<rparr>,
      db = store_ex, outbox = [], console = []\<rparr> \<and>
   db (route_contact_sqlite env_ex store_ex Calls_back 30 Sent ''now''
       (blank\<lparr>x_api_key := Some ''k3y'', body := lead(''phone'' \<mapsto> JStr [])\<rparr>)) = store_ex"
proof -
  let ?r = "blank\<lparr>x_api_key := Some ''k3y'', body := lead(''phone'' \<mapsto> JStr [])\<rparr>"
  have f: "''phone'' \<in> {''name'', ''business'', ''service'', ''phone''}" by simp
  have b: "body ?r ''phone'' = None \<or> body ?r ''phone'' = Some (JStr [])" by simp
  have n: "requireApiKey_pg env_ex ?r = Next"
    by (simp add: requireApiKey_pg_def js_or_def blank_def env_ex_def)
  from contact_rejects_missing_field
         [OF f b, of env_ex store_ex Resolves 30 Sent _ _ _ Calls_back "''now''"] n
  show ?thesis by (simp add: route_contact_pg_def)
qed

lemma db_insert_inv:
  assumes "store_inv st" and "db_insert st now n b s p m = (st', i)"
  shows "store_inv st' \<and> i \<notin> col_id ` set (rows st)"
  using assms by (fastforce simp: store_inv_def db_insert_def less_Suc_eq)

lemma store_inv_empty: "store_inv \<lparr>rows = [], next_id = i\<rparr>"
  by (simp add: store_inv_def)



lemma mailOptions_pg_strings:
  "mailOptions_pg e (JStr n) (JStr b) (JStr s) (JStr p) msg =
     bind_err (js_to_string msg) (\<lambda>m.
       Inr \<lparr>mail_from = EMAIL_USER e, mail_to = EMAIL_USER e,
            subject = subject_pg b, html = html_pg n b s p m\<rparr>)"
  by (simp add: mailOptions_pg_def bind_err_def)

lemma mailOptions_sqlite_strings:
  "mailOptions_sqlite e (JStr n) (JStr b) (JStr s) (JStr p) msg i t =
     bind_err (js_to_string (js_or msg (JStr ''No additional message''))) (\<lambda>m.
       Inr \<lparr>mail_from = EMAIL_USER e, mail_to = EMAIL_USER e,
            subject = subject_sqlite b, html = html_sqlite n b s p m (dec i) t\<rparr>)"
  by (simp add: mailOptions_sqlite_def bind_err_def)

lemma contact_pg_strings:
  assumes "body req ''name'' = Some (JStr n)" "n \<noteq> []"
    and "body req ''business'' = Some (JStr b)" "b \<noteq> []"
    and "body req ''service'' = Some (JStr s)" "s \<noteq> []"
    and "body req ''phone'' = Some (JStr p)" "p \<noteq> []"
    and "body req ''message'' = None \<and> m = [] \<or> body req ''message'' = Some (JStr m)"
  shows "contact_pg e st Resolves now sm req =
           \<lparr>answer = Inr \<lparr>status = 200, json = Submitted ''Form submitted!'' (next_id st)\<rparr>,
            db = st\<lparr>rows := rows st @
                  [\<lparr>col_id = next_id st, col_name = JStr n, col_business = JStr b,
                    col_service = JStr s, col_phone = JStr p, col_message = JStr m,
                    col_timestamp = now, col_status = ''new''\<rparr>],
                next_id := Suc (next_id st)\<rparr>,
            outbox = [\<lparr>mail_from = EMAIL_USER e, mail_to = EMAIL_USER e,
                       subject = subject_pg b,
                       html = html_pg n b s p
                                (if body req ''message'' = None then ''undefined'' else m)\<rparr>],
            console = []\<rparr>"
    and "contact_pg e st Rejects now sm req =
           \<lparr>answer = Inr \<lparr>status = 500, json = Failure ''Server error''\<rparr>,
            db = st, outbox = [], console = [Log (cross_mark @ '' Contact Error:'')]\<rparr>"
  using assms
  by (auto simp: contact_pg_def field_def db_insert_def js_or_def mailOptions_pg_strings
        bind_err_def)

lemma contact_sqlite_strings:
  assumes "body req ''name'' = Some (JStr n)" "n \<noteq> []"
    and "body req ''business'' = Some (JStr b)" "b \<noteq> []"
    and "body req ''service'' = Some (JStr s)" "s \<noteq> []"
    and "body req ''phone'' = Some (JStr p)" "p \<noteq> []"
    and "body req ''message'' = None \<and> m = [] \<or> body req ''message'' = Some (JStr m)"
  shows "contact_sqlite e st Calls_back now sm time req =
           \<lparr>answer = Inr \<lparr>status = 200,
                           json = Submitted
                             ''Form submitted successfully! We will contact you soon.''
                             (next_id st)\<rparr>,
            db = st\<lparr>rows := rows st @
                  [\<lparr>col_id = next_id st, col_name = JStr n, col_business = JStr b,
                    col_service = JStr s, col_phone = JStr p, col_message = JStr m,
                    col_timestamp = now, col_status = ''new''\<rparr>],
                next_id := Suc (next_id st)\<rparr>,
            outbox =
              (if truthy (of_env (EMAIL_USER e)) \<and> truthy (of_env (EMAIL_PASS e)) then
                 [\<lparr>mail_from = EMAIL_USER e, mail_to = EMAIL_USER e,
                   subject = subject_sqlite b,
                   html = html_sqlite n b s p
                            (if m = [] then ''No additional message'' else m)
                            (dec (next_id st)) time\<rparr>]
               else []),
            console =
              [Log ''Received form submission:'', Log ''Submission saved with ID:''] @
              (if truthy (of_env (EMAIL_USER e)) \<and> truthy (of_env (EMAIL_PASS e)) then
                 mail_callback sm
               else [])\<rparr>"
    and "contact_sqlite e st Calls_back_err now sm time req =
           \<lparr>answer = Inr \<lparr>status = 500, json = Failure ''Database error''\<rparr>,
            db = st, outbox = [],
            console = [Log ''Received form submission:'', Error ''Database error:'']\<rparr>"
    and "contact_sqlite e st Throws now sm time req =
           \<lparr>answer = Inr \<lparr>status = 500, json = Failure ''Internal server error''\<rparr>,
            db = st, outbox = [],
            console = [Log ''Received form submission:'',
                       Error ''Error processing submission:'']\<rparr>"
  using assms
  by (auto simp: contact_sqlite_def field_def db_insert_def js_or_def
        mailOptions_sqlite_strings bind_err_def)











section \<open>Deleting a submission\<close>

lemma filter_other_ids:
  assumes "distinct (map f xs)" and "r \<in> set xs"
  shows "filter (\<lambda>x. f x \<noteq> f r) xs = remove1 r xs"
  using assms
proof (induction xs)
  case Nil
  then show ?case by simp
next
  case (Cons x xs)
  show ?case
  proof (cases "x = r")
    case True
    with Cons.prems(1) have "f r \<notin> f ` set xs" by simp
    then have "\<forall>y \<in> set xs. f y \<noteq> f r" by (metis imageI)
    then have "filter (\<lambda>x. f x \<noteq> f r) xs = xs" by (simp add: filter_id_conv)
    with True show ?thesis by simp
  next
    case False
    with Cons.prems have "r \<in> set xs" and "f x \<noteq> f r" by auto
    with Cons False show ?thesis by simp
  qed
qed

lemma db_delete_none:
  assumes "\<forall>r \<in> set (rows st). as_id p \<noteq> Some (col_id r)"
  shows "db_delete as_id st p = (st, 0)"
proof -
  from assms have "filter (\<lambda>r. as_id p \<noteq> Some (col_id r)) (rows st) = rows st"
    by (simp add: filter_id_conv)
  moreover from assms have "filter (\<lambda>r. as_id p = Some (col_id r)) (rows st) = []"
    by (simp add: filter_empty_conv)
  ultimately show ?thesis by (simp add: db_delete_def)
qed

lemma db_delete_some:
  assumes "store_inv st" and "r \<in> set (rows st)" and "as_id p = Some (col_id r)"
  shows "\<exists>st'. db_delete as_id st p = (st', 1) \<and> rows st' = remove1 r (rows st) \<and>
           next_id st' = next_id st"
proof -
  from assms(1) have d: "distinct (map col_id (rows st))" by (simp add: store_inv_def)
  have keep: "filter (\<lambda>x. as_id p \<noteq> Some (col_id x)) (rows st) = remove1 r (rows st)"
    using filter_other_ids [OF d assms(2)] assms(3) by (simp add: eq_commute)
  have "length (filter (\<lambda>x. as_id p = Some (col_id x)) (rows st)) +
        length (filter (\<lambda>x. \<not> as_id p = Some (col_id x)) (rows st)) = length (rows st)"
    by (rule sum_length_filter_compl)
  then have "length (filter (\<lambda>x. as_id p = Some (col_id x)) (rows st)) +
        length (remove1 r (rows st)) = length (rows st)"
    using keep by simp
  moreover have "length (remove1 r (rows st)) = length (rows st) - 1"
    using assms(2) by (simp add: length_remove1)
  moreover have "length (rows st) > 0" using assms(2) by (cases "rows st") auto
  ultimately have "length (filter (\<lambda>x. as_id p = Some (col_id x)) (rows st)) = 1"
    by arith
  with keep show ?thesis by (simp add: db_delete_def)
qed

lemma db_delete_inv: "store_inv st \<Longrightarrow> store_inv (fst (db_delete as_id st p))"
  by (auto simp: store_inv_def db_delete_def distinct_map_filter)

lemma db_delete_zero:
  assumes "snd (db_delete as_id st p) = 0"
  shows "db_delete as_id st p = (st, 0)"
proof -
  from assms have "\<forall>r \<in> set (rows st). as_id p \<noteq> Some (col_id r)"
    by (simp add: db_delete_def filter_empty_conv)
  then show ?thesis by (rule db_delete_none)
qed

lemma delete_pg_zero:
  assumes "snd (db_delete as_id st (params_id req)) = 0"
  shows "delete_pg as_id st Resolves req =
    \<lparr>answer = Inr \<lparr>status = 404, json = Failure ''Not found''\<rparr>,
     db = st, outbox = [], console = []\<rparr>"
  by (simp add: delete_pg_def db_delete_zero [OF assms])

lemma delete_sqlite_zero:
  assumes "snd (db_delete as_id st (params_id req)) = 0"
  shows "delete_sqlite as_id st Calls_back req =
    \<lparr>answer = Inr \<lparr>status = 404, json = Failure ''Submission not found''\<rparr>,
     db = st, outbox = [], console = []\<rparr>"
  by (simp add: delete_sqlite_def db_delete_zero [OF assms])

lemma delete_pg_found:
  assumes "store_inv st" and "r \<in> set (rows st)" and "as_id (params_id req) = Some (col_id r)"
  shows "answer (delete_pg as_id st Resolves req) =
           Inr \<lparr>status = 200, json = Success ''Deleted''\<rparr>"
    and "rows (db (delete_pg as_id st Resolves req)) = remove1 r (rows st)"
    and "db (delete_pg as_id st Resolves req) = fst (db_delete as_id st (params_id req))"
  using db_delete_some [of st r as_id "params_id req"] assms by (auto simp: delete_pg_def)

lemma delete_sqlite_found:
  assumes "store_inv st" and "r \<in> set (rows st)" and "as_id (params_id req) = Some (col_id r)"
  shows "answer (delete_sqlite as_id st Calls_back req) =
           Inr \<lparr>status = 200, json = Success ''Submission deleted successfully''\<rparr>"
    and "rows (db (delete_sqlite as_id st Calls_back req)) = remove1 r (rows st)"
    and "db (delete_sqlite as_id st Calls_back req) = fst (db_delete as_id st (params_id req))"
  using db_delete_some [of st r as_id "params_id req"] assms by (auto simp: delete_sqlite_def)

lemma db_delete_again: "snd (db_delete as_id (fst (db_delete as_id st p)) p) = 0"
  by (simp add: db_delete_def)

text \<open>
  C4. A delete request that has passed the admin gate is answered
  \<^item> 404 when the statement deletes no row, and the table is as it was;
  \<^item> 500 when the store reports a failure (the query rejects; the callback receives an
    error), a different answer from the one for no row;
  \<^item> a success when the id is that of a stored row: exactly that row leaves the table,
    and the same request sent again is answered 404.
  The ids of the table are unique, as the primary key has it.
\<close>

theorem delete_distinguishes:
  assumes "requireAdminAuth_pg e req = Next"
  shows "(snd (db_delete as_id st (params_id req)) = 0 \<longrightarrow>
            route_delete_pg e as_id st Resolves req =
              \<lparr>answer = Inr \<lparr>status = 404, json = Failure ''Not found''\<rparr>,
               db = st, outbox = [], console = []\<rparr> \<and>
            route_delete_sqlite e as_id st Calls_back req =
              \<lparr>answer = Inr \<lparr>status = 404, json = Failure ''Submission not found''\<rparr>,
               db = st, outbox = [], console = []\<rparr>) \<and>
         route_delete_pg e as_id st Rejects req =
           \<lparr>answer = Inr \<lparr>status = 500, json = Failure ''Database error''\<rparr>,
            db = st, outbox = [], console = []\<rparr> \<and>
         route_delete_sqlite e as_id st Calls_back_err req =
           \<lparr>answer = Inr \<lparr>status = 500, json = Failure ''Database error''\<rparr>,
            db = st, outbox = [], console = [Error ''Database error:'']\<rparr> \<and>
         (\<forall>r. store_inv st \<and> r \<in> set (rows st) \<and> as_id (params_id req) = Some (col_id r) \<longrightarrow>
            answer (route_delete_pg e as_id st Resolves req) =
              Inr \<lparr>status = 200, json = Success ''Deleted''\<rparr> \<and>
            rows (db (route_delete_pg e as_id st Resolves req)) = remove1 r (rows st) \<and>
            answer (route_delete_pg e as_id (db (route_delete_pg e as_id st Resolves req))
                      Resolves req) =
              Inr \<lparr>status = 404, json = Failure ''Not found''\<rparr> \<and>
            answer (route_delete_sqlite e as_id st Calls_back req) =
              Inr \<lparr>status = 200, json = Success ''Submission deleted successfully''\<rparr> \<and>
            rows (db (route_delete_sqlite e as_id st Calls_back req)) = remove1 r (rows st) \<and>
            answer (route_delete_sqlite e as_id
                      (db (route_delete_sqlite e as_id st Calls_back req)) Calls_back req) =
              Inr \<lparr>status = 404, json = Failure ''Submission not found''\<rparr>)"
proof -
  have pg: "route_delete_pg e as_id s q req = delete_pg as_id s q req" for s q
    using assms by (simp add: route_delete_pg_def)
  have sqlite: "route_delete_sqlite e as_id s q req = delete_sqlite as_id s q req" for s q
    using assms by (simp add: route_delete_sqlite_def sqlite_gates)
  have zero: "snd (db_delete as_id st (params_id req)) = 0 \<longrightarrow>
      delete_pg as_id st Resolves req =
        \<lparr>answer = Inr \<lparr>status = 404, json = Failure ''Not found''\<rparr>,
         db = st, outbox = [], console = []\<rparr> \<and>
      delete_sqlite as_id st Calls_back req =
        \<lparr>answer = Inr \<lparr>status = 404, json = Failure ''Submission not found''\<rparr>,
         db = st, outbox = [], console = []\<rparr>"
    using delete_pg_zero delete_sqlite_zero by blast
  have fails: "delete_pg as_id st Rejects req =
      \<lparr>answer = Inr \<lparr>status = 500, json = Failure ''Database error''\<rparr>,
       db = st, outbox = [], console = []\<rparr>"
    "delete_sqlite as_id st Calls_back_err req =
      \<lparr>answer = Inr \<lparr>status = 500, json = Failure ''Database error''\<rparr>,
       db = st, outbox = [], console = [Error ''Database error:'']\<rparr>"
    by (simp_all add: delete_pg_def delete_sqlite_def)
  have found: "answer (delete_pg as_id st Resolves req) =
        Inr \<lparr>status = 200, json = Success ''Deleted''\<rparr> \<and>
      rows (db (delete_pg as_id st Resolves req)) = remove1 r (rows st) \<and>
      answer (delete_pg as_id (db (delete_pg as_id st Resolves req)) Resolves req) =
        Inr \<lparr>status = 404, json = Failure ''Not found''\<rparr> \<and>
      answer (delete_sqlite as_id st Calls_back req) =
        Inr \<lparr>status = 200, json = Success ''Submission deleted successfully''\<rparr> \<and>
      rows (db (delete_sqlite as_id st Calls_back req)) = remove1 r (rows st) \<and>
      answer (delete_sqlite as_id (db (delete_sqlite as_id st Calls_back req))
                Calls_back req) =
        Inr \<lparr>status = 404, json = Failure ''Submission not found''\<rparr>"
    if "store_inv st" "r \<in> set (rows st)" "as_id (params_id req) = Some (col_id r)" for r
    using delete_pg_found [of st r as_id req] delete_sqlite_found [of st r as_id req] that
    by (simp add: delete_pg_zero [OF db_delete_again] delete_sqlite_zero [OF db_delete_again])
  show ?thesis
    unfolding pg sqlite using zero fails found by blast
qed

theorem delete_distinguishes_witness:
  "requireAdminAuth_pg env_ex
     (blank\<lparr>authorization := Some ''Bearer s3cret'', params_id := ''2''\<rparr>) = Next \<and>
   store_inv store_ex \<and> row2 \<in> set (rows store_ex) \<and> as_id_ex ''2'' = Some (col_id row2) \<and>
   answer (route_delete_pg env_ex as_id_ex store_ex Resolves
             (blank\<lparr>authorization := Some ''Bearer s3cret'', params_id := ''2''\<rparr>)) =
     Inr \<lparr>status = 200, json = Success ''Deleted''\<rparr> \<and>
   rows (db (route_delete_pg env_ex as_id_ex store_ex Resolves
               (blank\<lparr>authorization := Some ''Bearer s3cret'', params_id := ''2''\<rparr>))) =
     [row1] \<and>
   answer (route_delete_sqlite env_ex as_id_ex
             (db (route_delete_sqlite env_ex as_id_ex store_ex Calls_back
                    (blank\<lparr>authorization := Some ''Bearer s3cret'', params_id := ''2''\<rparr>)))
             Calls_back
             (blank\<lparr>authorization := Some ''Bearer s3cret'', params_id := ''2''\<rparr>)) =
     Inr \<lparr>status = 404, json = Failure ''Submission not found''\<rparr> \<and>
   answer (route_delete_pg env_ex as_id_ex store_ex Rejects
             (blank\<lparr>authorization := Some ''Bearer s3cret'', params_id := ''2''\<rparr>)) =
     Inr \<lparr>status = 500, json = Failure ''Database error''\<rparr>"
proof -
  let ?r = "blank\<lparr>authorization := Some ''Bearer s3cret'', params_id := ''2''\<rparr>"
  have gate: "requireAdminAuth_pg env_ex ?r = Next"
    by (simp add: requireAdminAuth_pg_def blank_def env_ex_def)
  have h: "store_inv store_ex \<and> row2 \<in> set (rows store_ex) \<and>
           as_id_ex (params_id ?r) = Some (col_id row2)"
    by (simp add: store_inv_def store_ex_def row1_def row2_def as_id_ex_def)
  note d = delete_distinguishes [OF gate, of as_id_ex store_ex]
  from d [THEN conjunct2, THEN conjunct2, THEN conjunct2, THEN spec, of row2] h
    d [THEN conjunct2, THEN conjunct1] gate
  show ?thesis by (simp add: store_ex_def row1_def row2_def)
qed

section \<open>Listing the submissions\<close>

lemma db_select_all: "mset (db_select st) = mset (rows st)"
  by (simp add: db_select_def)

lemma db_select_sorted:
  "sorted_wrt (\<lambda>a b. col_timestamp b \<le> col_timestamp a) (db_select st)"
proof -
  have "sorted (map col_timestamp (sort_key col_timestamp (rows st)))"
    by (rule sorted_sort_key)
  then have "sorted_wrt (\<lambda>a b. col_timestamp a \<le> col_timestamp b)
               (sort_key col_timestamp (rows st))"
    by (simp add: sorted_map)
  then show ?thesis by (simp add: db_select_def sorted_wrt_rev)
qed

lemma db_select_order:
  assumes "col_timestamp r1 < col_timestamp r2"
    and "i < length (db_select st)" "j < length (db_select st)"
    and "db_select st ! i = r2" "db_select st ! j = r1"
  shows "i < j"
proof (rule ccontr)
  assume "\<not> i < j"
  then consider "j = i" | "j < i" by arith
  then show False
  proof cases
    case 1
    with assms show False by simp
  next
    case 2
    with db_select_sorted [of st] assms(2)
    have "col_timestamp (db_select st ! i) \<le> col_timestamp (db_select st ! j)"
      by (simp add: sorted_wrt_iff_nth_less)
    with assms show False by simp
  qed
qed

text \<open>
  C7. A listing request that has passed the admin gate is answered, when the query
  succeeds, with all the stored rows, each once, most recent first: of two stored rows
  with timestamps \<open>T1 < T2\<close>, the one with \<open>T2\<close> stands before the one with \<open>T1\<close> in
  \<^verbatim>\<open>data\<close>. The table is not changed. When the store reports a failure the answer has
  status 500.
\<close>

theorem list_most_recent_first:
  assumes "requireAdminAuth_pg e req = Next"
  shows "route_list_pg e st Resolves req =
           \<lparr>answer = Inr \<lparr>status = 200, json = Rows (db_select st)\<rparr>,
            db = st, outbox = [], console = []\<rparr> \<and>
         route_list_sqlite e st Calls_back req =
           \<lparr>answer = Inr \<lparr>status = 200, json = Rows (db_select st)\<rparr>,
            db = st, outbox = [], console = []\<rparr> \<and>
         mset (db_select st) = mset (rows st) \<and>
         (\<forall>r1 r2. r1 \<in> set (rows st) \<and> r2 \<in> set (rows st) \<and>
                  col_timestamp r1 < col_timestamp r2 \<longrightarrow>
            r1 \<in> set (db_select st) \<and> r2 \<in> set (db_select st) \<and>
            (\<forall>i j. i < length (db_select st) \<and> j < length (db_select st) \<and>
                   db_select st ! i = r2 \<and> db_select st ! j = r1 \<longrightarrow> i < j)) \<and>
         route_list_pg e st Rejects req =
           \<lparr>answer = Inr \<lparr>status = 500, json = Failure ''Database error''\<rparr>,
            db = st, outbox = [], console = []\<rparr> \<and>
         route_list_sqlite e st Calls_back_err req =
           \<lparr>answer = Inr \<lparr>status = 500, json = Failure ''Database error''\<rparr>,
            db = st, outbox = [], console = [Error ''Database error:'']\<rparr>"
proof -
  have pg: "route_list_pg e st q req = list_pg st q" for q
    using assms by (simp add: route_list_pg_def)
  have sqlite: "route_list_sqlite e st q req = list_sqlite st q" for q
    using assms by (simp add: route_list_sqlite_def sqlite_gates)
  have same: "set (db_select st) = set (rows st)"
    using db_select_all [of st] by (metis set_mset_mset)
  have order: "\<forall>r1 r2. r1 \<in> set (rows st) \<and> r2 \<in> set (rows st) \<and>
                  col_timestamp r1 < col_timestamp r2 \<longrightarrow>
            r1 \<in> set (db_select st) \<and> r2 \<in> set (db_select st) \<and>
            (\<forall>i j. i < length (db_select st) \<and> j < length (db_select st) \<and>
                   db_select st ! i = r2 \<and> db_select st ! j = r1 \<longrightarrow> i < j)"
    using db_select_order [of _ _ _ st] same by blast
  have answers:
    "list_pg st Resolves =
       \<lparr>answer = Inr \<lparr>status = 200, json = Rows (db_select st)\<rparr>,
        db = st, outbox = [], console = []\<rparr>"
    "list_sqlite st Calls_back =
       \<lparr>answer = Inr \<lparr>status = 200, json = Rows (db_select st)\<rparr>,
        db = st, outbox = [], console = []\<rparr>"
    "list_pg st Rejects =
       \<lparr>answer = Inr \<lparr>status = 500, json = Failure ''Database error''\<rparr>,
        db = st, outbox = [], console = []\<rparr>"
    "list_sqlite st Calls_back_err =
       \<lparr>answer = Inr \<lparr>status = 500, json = Failure ''Database error''\<rparr>,
        db = st, outbox = [], console = [Error ''Database error:'']\<rparr>"
    by (simp_all add: list_pg_def list_sqlite_def)
  show ?thesis
    unfolding pg sqlite
    by (intro conjI answers db_select_all order)
qed

theorem list_most_recent_first_witness:
  "requireAdminAuth_pg env_ex (blank\<lparr>authorization := Some ''Bearer s3cret''\<rparr>) = Next \<and>
   row1 \<in> set (rows store_ex) \<and> row2 \<in> set (rows store_ex) \<and>
   col_timestamp row1 < col_timestamp row2 \<and>
   route_list_pg env_ex store_ex Resolves (blank\<lparr>authorization := Some ''Bearer s3cret''\<rparr>) =
     \<lparr>answer = Inr \<lparr>status = 200, json = Rows (db_select store_ex)\<rparr>,
      db = store_ex, outbox = [], console = []\<rparr> \<and>
   db_select store_ex = [row2, row1] \<and>
   mset (db_select store_ex) = mset (rows store_ex)"
proof -
  let ?r = "blank\<lparr>authorization := Some ''Bearer s3cret''\<rparr>"
  have gate: "requireAdminAuth_pg env_ex ?r = Next"
    by (simp add: requireAdminAuth_pg_def blank_def env_ex_def)
  have h: "row1 \<in> set (rows store_ex) \<and> row2 \<in> set (rows store_ex) \<and>
           col_timestamp row1 < col_timestamp row2"
    by (simp add: store_ex_def row1_def row2_def)
  have sel: "db_select store_ex = [row2, row1]"
    by (simp add: db_select_def store_ex_def row1_def row2_def)
  note l = list_most_recent_first [OF gate, of store_ex]
  from gate h l [THEN conjunct1] sel l [THEN conjunct2, THEN conjunct2, THEN conjunct1]
  show ?thesis by (intro conjI) blast+
qed

section \<open>Logging in\<close>

lemma login_pg_cases:
  "body req ''password'' = None \<or> body req ''password'' = Some (JStr []) \<Longrightarrow>
     login_pg e req = \<lparr>status = 400, json = Failure ''Password required''\<rparr>"
  "body req ''password'' = Some (JStr w) \<Longrightarrow> w \<noteq> [] \<Longrightarrow> ADMIN_PASSWORD e \<noteq> Some w \<Longrightarrow>
     login_pg e req = \<lparr>status = 401, json = Failure ''Invalid password''\<rparr>"
  "body req ''password'' = Some (JStr s) \<Longrightarrow> s \<noteq> [] \<Longrightarrow> ADMIN_PASSWORD e = Some s \<Longrightarrow>
     login_pg e req = \<lparr>status = 200, json = Token (Some s)\<rparr>"
  by (cases "ADMIN_PASSWORD e"; auto simp: login_pg_def field_def)+

lemma login_sqlite_cases:
  "body req ''password'' = None \<or> body req ''password'' = Some (JStr []) \<Longrightarrow>
     login_sqlite e req = \<lparr>status = 400, json = Failure ''Password required''\<rparr>"
  "body req ''password'' = Some (JStr w) \<Longrightarrow> w \<noteq> [] \<Longrightarrow> ADMIN_PASSWORD e \<noteq> Some w \<Longrightarrow>
     login_sqlite e req = \<lparr>status = 401, json = Failure ''Invalid password''\<rparr>"
  "body req ''password'' = Some (JStr s) \<Longrightarrow> s \<noteq> [] \<Longrightarrow> ADMIN_PASSWORD e = Some s \<Longrightarrow>
     login_sqlite e req =
       \<lparr>status = 200, json = TokenMsg ''Login successful'' (Some s)\<rparr>"
  by (cases "ADMIN_PASSWORD e"; auto simp: login_sqlite_def field_def)+

text \<open>
  C8, as stated, promises a token to every login whose password equals the configured
  admin secret. With the secret set to the empty string, the password that equals it
  is the empty string, which the handler takes for a missing password: the request
  passes the API-key gate and is answered 400.
\<close>

theorem login_blank_secret_counterexample:
  "requireApiKey_pg env_blank_secret
     (blank\<lparr>x_api_key := Some ''k3y'', body := [''password'' \<mapsto> JStr []]\<rparr>) = Next \<and>
   ADMIN_PASSWORD env_blank_secret = Some [] \<and>
   body (blank\<lparr>x_api_key := Some ''k3y'', body := [''password'' \<mapsto> JStr []]\<rparr>) ''password''
     = Some (JStr []) \<and>
   answer (route_login_pg env_blank_secret store_ex
             (blank\<lparr>x_api_key := Some ''k3y'', body := [''password'' \<mapsto> JStr []]\<rparr>)) =
     Inr \<lparr>status = 400, json = Failure ''Password required''\<rparr> \<and>
   answer (route_login_sqlite env_blank_secret store_ex
             (blank\<lparr>x_api_key := Some ''k3y'', body := [''password'' \<mapsto> JStr []]\<rparr>)) =
     Inr \<lparr>status = 400, json = Failure ''Password required''\<rparr>"
  by (simp add: route_login_pg_def route_login_sqlite_def requireApiKey_pg_def
        requireApiKey_sqlite_def login_pg_def login_sqlite_def field_def js_or_def
        env_blank_secret_def env_ex_def blank_def)

text \<open>
  C8, amended. A login request with a valid API key whose password is a non-empty
  string equal to the configured admin secret is answered with a success whose token
  is that secret, and every request that carries the token as
  \<^verbatim>\<open>Authorization: Bearer <token>\<close> passes the admin gate, so that the listing and the
  deletion routes run their handlers. A login with a non-empty password that is not the
  secret is answered 401, one without a password 400. No login touches the table, the
  outbox or the console.
\<close>

theorem login_round_trip:
  assumes "requireApiKey_pg e req = Next"
  shows "(\<forall>s. ADMIN_PASSWORD e = Some s \<and> s \<noteq> [] \<and> body req ''password'' = Some (JStr s) \<longrightarrow>
            route_login_pg e st req =
              \<lparr>answer = Inr \<lparr>status = 200, json = Token (Some s)\<rparr>,
               db = st, outbox = [], console = []\<rparr> \<and>
            route_login_sqlite e st req =
              \<lparr>answer = Inr \<lparr>status = 200, json = TokenMsg ''Login successful'' (Some s)\<rparr>,
               db = st, outbox = [], console = []\<rparr> \<and>
            (\<forall>req'. authorization req' = Some (''Bearer '' @ s) \<longrightarrow>
               requireAdminAuth_pg e req' = Next \<and>
               requireAdminAuth_sqlite e req' = Next \<and>
               route_list_pg e st' q req' = list_pg st' q \<and>
               route_delete_pg e as_id st' q req' = delete_pg as_id st' q req' \<and>
               route_list_sqlite e st' q' req' = list_sqlite st' q' \<and>
               route_delete_sqlite e as_id st' q' req' = delete_sqlite as_id st' q' req')) \<and>
         (\<forall>w. body req ''password'' = Some (JStr w) \<and> w \<noteq> [] \<and> ADMIN_PASSWORD e \<noteq> Some w \<longrightarrow>
            route_login_pg e st req =
              \<lparr>answer = Inr \<lparr>status = 401, json = Failure ''Invalid password''\<rparr>,
               db = st, outbox = [], console = []\<rparr> \<and>
            route_login_sqlite e st req =
              \<lparr>answer = Inr \<lparr>status = 401, json = Failure ''Invalid password''\<rparr>,
               db = st, outbox = [], console = []\<rparr>) \<and>
         (body req ''password'' = None \<longrightarrow>
            route_login_pg e st req =
              \<lparr>answer = Inr \<lparr>status = 400, json = Failure ''Password required''\<rparr>,
               db = st, outbox = [], console = []\<rparr> \<and>
            route_login_sqlite e st req =
              \<lparr>answer = Inr \<lparr>status = 400, json = Failure ''Password required''\<rparr>,
               db = st, outbox = [], console = []\<rparr>)"
proof -
  have pg: "route_login_pg e st req =
      \<lparr>answer = Inr (login_pg e req), db = st, outbox = [], console = []\<rparr>"
    using assms by (simp add: route_login_pg_def)
  have sqlite: "route_login_sqlite e st req =
      \<lparr>answer = Inr (login_sqlite e req), db = st, outbox = [], console = []\<rparr>"
    using assms by (simp add: route_login_sqlite_def sqlite_gates)
  have bearer: "requireAdminAuth_pg e req' = Next \<and>
      requireAdminAuth_sqlite e req' = Next \<and>
      route_list_pg e st' q req' = list_pg st' q \<and>
      route_delete_pg e as_id st' q req' = delete_pg as_id st' q req' \<and>
      route_list_sqlite e st' q' req' = list_sqlite st' q' \<and>
      route_delete_sqlite e as_id st' q' req' = delete_sqlite as_id st' q' req'"
    if "ADMIN_PASSWORD e = Some s" "authorization req' = Some (''Bearer '' @ s)" for s req'
    using requireAdminAuth_bearer [OF that(2), of e] that(1)
    by (simp add: sqlite_gates route_list_pg_def route_delete_pg_def route_list_sqlite_def
          route_delete_sqlite_def)
  show ?thesis
    unfolding pg sqlite
    using login_pg_cases [where req = req and e = e]
      login_sqlite_cases [where req = req and e = e] bearer
    by (intro conjI allI impI; (elim conjE)?; simp)
qed

theorem login_round_trip_witness:
  "requireApiKey_pg env_ex
     (blank\<lparr>x_api_key := Some ''k3y'', body := [''password'' \<mapsto> JStr ''s3cret'']\<rparr>) = Next \<and>
   ADMIN_PASSWORD env_ex = Some ''s3cret'' \<and> ''s3cret'' \<noteq> [] \<and>
   answer (route_login_pg env_ex store_ex
             (blank\<lparr>x_api_key := Some ''k3y'', body := [''password'' \<mapsto> JStr ''s3cret'']\<rparr>)) =
     Inr \<lparr>status = 200, json = Token (Some ''s3cret'')\<rparr> \<and>
   requireAdminAuth_pg env_ex (blank\<lparr>authorization := Some ''Bearer s3cret''\<rparr>) = Next \<and>
   route_delete_sqlite env_ex as_id_ex store_ex Calls_back
       (blank\<lparr>authorization := Some ''Bearer s3cret''\<rparr>) =
     delete_sqlite as_id_ex store_ex Calls_back (blank\<lparr>authorization := Some ''Bearer s3cret''\<rparr>) \<and>
   route_login_sqlite env_ex store_ex
       (blank\<lparr>x_api_key := Some ''k3y'', body := [''password'' \<mapsto> JStr ''guess'']\<rparr>) =
     \<lparr>answer = Inr \<lparr>status = 401, json = Failure ''Invalid password''\<rparr>,
      db = store_ex, outbox = [], console = []\<rparr>"
proof -
  let ?ok = "blank\<lparr>x_api_key := Some ''k3y'', body := [''password'' \<mapsto> JStr ''s3cret'']\<rparr>"
  let ?no = "blank\<lparr>x_api_key := Some ''k3y'', body := [''password'' \<mapsto> JStr ''guess'']\<rparr>"
  let ?b = "blank\<lparr>authorization := Some ''Bearer s3cret''\<rparr>"
  have k1: "requireApiKey_pg env_ex ?ok = Next" and k2: "requireApiKey_pg env_ex ?no = Next"
    by (simp_all add: requireApiKey_pg_def js_or_def blank_def env_ex_def)
  have s: "ADMIN_PASSWORD env_ex = Some ''s3cret'' \<and> ''s3cret'' \<noteq> [] \<and>
           body ?ok ''password'' = Some (JStr ''s3cret'')"
    by (simp add: env_ex_def)
  have w: "body ?no ''password'' = Some (JStr ''guess'') \<and> ''guess'' \<noteq> [] \<and>
           ADMIN_PASSWORD env_ex \<noteq> Some ''guess''"
    by (simp add: env_ex_def)
  have b: "authorization ?b = Some (''Bearer '' @ ''s3cret'')" by simp
  note ok = login_round_trip [OF k1, of store_ex store_ex Resolves as_id_ex Calls_back,
              THEN conjunct1, THEN spec, of "''s3cret''", THEN mp, OF s]
  note no = login_round_trip [OF k2, of store_ex store_ex Resolves as_id_ex Calls_back,
              THEN conjunct2, THEN conjunct1, THEN spec, of "''guess''", THEN mp, OF w]
  note br = ok [THEN conjunct2, THEN conjunct2, THEN spec, of ?b, THEN mp, OF b]
  from k1 s ok [THEN conjunct1] br no [THEN conjunct2]
  show ?thesis by simp
qed

section \<open>Empty credentials\<close>

lemma field_value_last: "field_value raw = xs @ [c] \<Longrightarrow> \<not> ows c"
proof -
  assume "field_value raw = xs @ [c]"
  then have "rev (field_value raw) = c # rev xs" by simp
  then have d: "dropWhile ows (rev (dropWhile ows raw)) = c # rev xs"
    by (simp add: field_value_def)
  then have "hd (dropWhile ows (rev (dropWhile ows raw))) = c" by simp
  moreover from d have "dropWhile ows (rev (dropWhile ows raw)) \<noteq> []" by simp
  ultimately show "\<not> ows c" using hd_dropWhile by metis
qed

lemma field_value_Bearer: "field_value ''Bearer '' = ''Bearer''"
  by (simp add: field_value_def ows_def)

lemma field_value_no_empty_token:
  assumes "drop 7 (field_value raw) = []"
  shows "field_value raw = [] \<or> \<not> prefix ''Bearer '' (field_value raw)"
proof (rule ccontr)
  assume "\<not> (field_value raw = [] \<or> \<not> prefix ''Bearer '' (field_value raw))"
  then obtain t where t: "field_value raw = ''Bearer '' @ t"
    unfolding prefix_Bearer by blast
  with assms have "t = []" by simp
  with t have "field_value raw = ''Bearer'' @ [CHR '' '']" by simp
  then have "\<not> ows (CHR '' '')" by (rule field_value_last)
  then show False by (simp add: ows_def)
qed

lemma requireAdminAuth_empty_token:
  assumes "authorization req = Some (field_value raw)" and "drop 7 (field_value raw) = []"
  shows "requireAdminAuth_pg e req =
    Reject \<lparr>status = 401, json = Failure ''Admin authentication required''\<rparr>"
  using field_value_no_empty_token [OF assms(2)] assms(1)
  by (auto simp: requireAdminAuth_pg_def)

text \<open>
  C9, as stated, has the admin gate answer 403 to a request with the header
  \<^verbatim>\<open>Authorization: Bearer \<close> and nothing after the scheme, the empty token being compared
  with the secret. The value of that header reaches the gate as \<^verbatim>\<open>Bearer\<close>, without the
  space; it does not start with \<^verbatim>\<open>Bearer \<close>, and the gate answers 401 before any
  comparison.
\<close>

theorem empty_bearer_counterexample:
  "field_value ''Bearer '' = ''Bearer'' \<and>
   requireAdminAuth_pg env_ex (blank\<lparr>authorization := Some (field_value ''Bearer '')\<rparr>) =
     Reject \<lparr>status = 401, json = Failure ''Admin authentication required''\<rparr> \<and>
   requireAdminAuth_sqlite env_ex (blank\<lparr>authorization := Some (field_value ''Bearer '')\<rparr>) =
     Reject \<lparr>status = 401, json = Failure ''Admin authentication required''\<rparr>"
  by (simp add: field_value_Bearer requireAdminAuth_pg_def requireAdminAuth_sqlite_def
        env_ex_def blank_def)

text \<open>
  C9, amended. At the public interface an empty credential is taken for a missing one
  in each of the three places, under every configuration.
  \<^item> The API-key gate takes an empty \<^verbatim>\<open>x-api-key\<close> header, with an empty or missing
    \<^verbatim>\<open>apiKey\<close> parameter, for no key: the answer is 401, the key is never compared with
    the secret.
  \<^item> The admin gate answers 401 to the header \<^verbatim>\<open>Authorization: Bearer \<close>, and to every
    header whose field value leaves nothing after the seven characters of the scheme:
    an empty token is never compared with the secret.
  \<^item> The login handler takes an empty password for a missing one: the answer is 400,
    also when the admin secret is the empty string.
\<close>

theorem empty_credentials:
  "(x_api_key req = Some [] \<and> (query_apiKey req = JStr [] \<or> query_apiKey req = JUndefined) \<longrightarrow>
      requireApiKey_pg e req = Reject \<lparr>status = 401, json = Failure ''API key required''\<rparr> \<and>
      requireApiKey_sqlite e req =
        Reject \<lparr>status = 401, json = Failure ''API key required''\<rparr>) \<and>
   (authorization req = Some (field_value ''Bearer '') \<longrightarrow>
      requireAdminAuth_pg e req =
        Reject \<lparr>status = 401, json = Failure ''Admin authentication required''\<rparr> \<and>
      requireAdminAuth_sqlite e req =
        Reject \<lparr>status = 401, json = Failure ''Admin authentication required''\<rparr>) \<and>
   (\<forall>raw. authorization req = Some (field_value raw) \<and> drop 7 (field_value raw) = [] \<longrightarrow>
      requireAdminAuth_pg e req =
        Reject \<lparr>status = 401, json = Failure ''Admin authentication required''\<rparr> \<and>
      requireAdminAuth_sqlite e req =
        Reject \<lparr>status = 401, json = Failure ''Admin authentication required''\<rparr>) \<and>
   (body req ''password'' = Some (JStr []) \<longrightarrow>
      login_pg e req = \<lparr>status = 400, json = Failure ''Password required''\<rparr> \<and>
      login_sqlite e req = \<lparr>status = 400, json = Failure ''Password required''\<rparr> \<and>
      (requireApiKey_pg e req = Next \<longrightarrow>
         answer (route_login_pg e st req) =
           Inr \<lparr>status = 400, json = Failure ''Password required''\<rparr> \<and>
         answer (route_login_sqlite e st req) =
           Inr \<lparr>status = 400, json = Failure ''Password required''\<rparr>))"
proof -
  have api: "x_api_key req = Some [] \<and>
      (query_apiKey req = JStr [] \<or> query_apiKey req = JUndefined) \<longrightarrow>
      requireApiKey_pg e req = Reject \<lparr>status = 401, json = Failure ''API key required''\<rparr> \<and>
      requireApiKey_sqlite e req =
        Reject \<lparr>status = 401, json = Failure ''API key required''\<rparr>"
    unfolding sqlite_gates using requireApiKey_no_key [of req e] by auto
  have empty: "\<forall>raw. authorization req = Some (field_value raw) \<and>
      drop 7 (field_value raw) = [] \<longrightarrow>
      requireAdminAuth_pg e req =
        Reject \<lparr>status = 401, json = Failure ''Admin authentication required''\<rparr> \<and>
      requireAdminAuth_sqlite e req =
        Reject \<lparr>status = 401, json = Failure ''Admin authentication required''\<rparr>"
    unfolding sqlite_gates using requireAdminAuth_empty_token [of req _ e] by blast
  have "drop 7 (field_value ''Bearer '') = []" by (simp add: field_value_Bearer)
  with empty have bearer: "authorization req = Some (field_value ''Bearer '') \<longrightarrow>
      requireAdminAuth_pg e req =
        Reject \<lparr>status = 401, json = Failure ''Admin authentication required''\<rparr> \<and>
      requireAdminAuth_sqlite e req =
        Reject \<lparr>status = 401, json = Failure ''Admin authentication required''\<rparr>"
    by blast
  have login: "body req ''password'' = Some (JStr []) \<longrightarrow>
      login_pg e req = \<lparr>status = 400, json = Failure ''Password required''\<rparr> \<and>
      login_sqlite e req = \<lparr>status = 400, json = Failure ''Password required''\<rparr> \<and>
      (requireApiKey_pg e req = Next \<longrightarrow>
         answer (route_login_pg e st req) =
           Inr \<lparr>status = 400, json = Failure ''Password required''\<rparr> \<and>
         answer (route_login_sqlite e st req) =
           Inr \<lparr>status = 400, json = Failure ''Password required''\<rparr>)"
    by (simp add: login_pg_cases(1) login_sqlite_cases(1) route_login_pg_def
          route_login_sqlite_def sqlite_gates)
  from api bearer empty login show ?thesis by (intro conjI)
qed

theorem empty_credentials_witness:
  "requireApiKey_pg (env_ex\<lparr>API_KEY := Some []\<rparr>)
     (blank\<lparr>x_api_key := Some [], query_apiKey := JStr []\<rparr>) =
     Reject \<lparr>status = 401, json = Failure ''API key required''\<rparr> \<and>
   requireAdminAuth_pg env_ex (blank\<lparr>authorization := Some (field_value ''Bearer '')\<rparr>) =
     Reject \<lparr>status = 401, json = Failure ''Admin authentication required''\<rparr> \<and>
   requireAdminAuth_sqlite env_blank_secret
       (blank\<lparr>authorization := Some (field_value ''Bearer '')\<rparr>) =
     Reject \<lparr>status = 401, json = Failure ''Admin authentication required''\<rparr> \<and>
   login_pg env_blank_secret (blank\<lparr>body := [''password'' \<mapsto> JStr []]\<rparr>) =
     \<lparr>status = 400, json = Failure ''Password required''\<rparr>"
  using
    empty_credentials [of "blank\<lparr>x_api_key := Some [], query_apiKey := JStr []\<rparr>"
                          "env_ex\<lparr>API_KEY := Some []\<rparr>" store_ex, THEN conjunct1]
    empty_credentials [of "blank\<lparr>authorization := Some (field_value ''Bearer '')\<rparr>" env_ex
                          store_ex, THEN conjunct2, THEN conjunct1]
    empty_credentials [of "blank\<lparr>authorization := Some (field_value ''Bearer '')\<rparr>"
                          env_blank_secret store_ex, THEN conjunct2, THEN conjunct1]
    empty_credentials [of "blank\<lparr>body := [''password'' \<mapsto> JStr []]\<rparr>" env_blank_secret
                          store_ex, THEN conjunct2, THEN conjunct2, THEN conjunct2]
  by (simp add: env_ex_def env_blank_secret_def)

section \<open>The notification\<close>

lemma contact_pg_ignores_notifier:
  "contact_pg e st q now sm req = contact_pg e st q now sm' req"
  by (simp add: contact_pg_def)

lemma contact_sqlite_answer_ignores_notifier:
  "answer (contact_sqlite e st q now sm time req) =
     answer (contact_sqlite e st q now sm' time req) \<and>
   db (contact_sqlite e st q now sm time req) = db (contact_sqlite e st q now sm' time req) \<and>
   outbox (contact_sqlite e st q now sm time req) =
     outbox (contact_sqlite e st q now sm' time req)"
  by (simp add: contact_sqlite_def Let_def split: sqlite_outcome.split prod.split sum.split)

text \<open>In both files the response, the table and the message sent are the same however
  the send ends.\<close>

lemma response_ignores_notifier:
  "answer (route_contact_pg e st q now sm req) = answer (route_contact_pg e st q now sm' req) \<and>
   db (route_contact_pg e st q now sm req) = db (route_contact_pg e st q now sm' req) \<and>
   answer (route_contact_sqlite e st q' now sm time req) =
     answer (route_contact_sqlite e st q' now sm' time req) \<and>
   db (route_contact_sqlite e st q' now sm time req) =
     db (route_contact_sqlite e st q' now sm' time req)"
  using contact_pg_ignores_notifier [of e st q now sm req sm']
    contact_sqlite_answer_ignores_notifier [of e st q' now sm time req sm']
  by (simp add: route_contact_pg_def route_contact_sqlite_def split: gate.split)

text \<open>In \<^verbatim>\<open>src/unnamed/part_000\<close> a failed send of a message that was handed to the
  notifier is written to the console.\<close>

lemma sqlite_logs_send_failure:
  assumes "outbox (route_contact_sqlite e st q now Send_fails time req) \<noteq> []"
  shows "Error ''Email sending failed:'' \<in>
           set (console (route_contact_sqlite e st q now Send_fails time req))"
  using assms
  by (auto simp: route_contact_sqlite_def rejected_def contact_sqlite_def Let_def
        split: gate.splits sqlite_outcome.splits prod.splits sum.splits if_splits)

text \<open>
  C5. The response to a contact submission is the same however the send of the
  notification ends, and no send error reaches the client: this holds in both files.
  A send error is logged in \<^verbatim>\<open>src/unnamed/part_000\<close>, whose callback writes it to the
  console. In \<^verbatim>\<open>src/server.js\<close> the handler calls \<^verbatim>\<open>sendMail\<close> without a callback and
  drops the promise, so that the block which logs the errors of the handler never sees
  a failed send: for the submission below the message is handed to the notifier, the
  send fails, the client gets its success, and the console has no line, as when the
  send succeeds.
\<close>

theorem server_js_send_failure_not_logged:
  "outbox (route_contact_pg env_ex store_ex Resolves 30 Send_fails post_lead) =
     [\<lparr>mail_from = Some ''owner@example.org'', mail_to = Some ''owner@example.org'',
       subject = subject_pg ''B'',
       html = html_pg ''A'' ''B'' ''C'' ''D'' ''undefined''\<rparr>] \<and>
   answer (route_contact_pg env_ex store_ex Resolves 30 Send_fails post_lead) =
     Inr \<lparr>status = 200, json = Submitted ''Form submitted!'' 3\<rparr> \<and>
   console (route_contact_pg env_ex store_ex Resolves 30 Send_fails post_lead) = [] \<and>
   console (route_contact_pg env_ex store_ex Resolves 30 Sent post_lead) = [] \<and>
   console (route_contact_sqlite env_ex store_ex Calls_back 30 Send_fails ''now'' post_lead) =
     [Log ''Received form submission:'', Log ''Submission saved with ID:'',
      Error ''Email sending failed:'']"
proof -
  have key: "requireApiKey_pg env_ex post_lead = Next"
    by (simp add: requireApiKey_pg_def js_or_def blank_def env_ex_def post_lead_def)
  have flds: "body post_lead ''name'' = Some (JStr ''A'')" "''A'' \<noteq> []"
    "body post_lead ''business'' = Some (JStr ''B'')" "''B'' \<noteq> []"
    "body post_lead ''service'' = Some (JStr ''C'')" "''C'' \<noteq> []"
    "body post_lead ''phone'' = Some (JStr ''D'')" "''D'' \<noteq> []"
    "body post_lead ''message'' = None \<and> [] = [] \<or> body post_lead ''message'' = Some (JStr [])"
    by (simp_all add: lead_def post_lead_def)
  have pg: "route_contact_pg env_ex store_ex q 30 sm post_lead =
      contact_pg env_ex store_ex q 30 sm post_lead" for q sm
    using key by (simp add: route_contact_pg_def)
  have sqlite: "route_contact_sqlite env_ex store_ex q 30 sm ''now'' post_lead =
      contact_sqlite env_ex store_ex q 30 sm ''now'' post_lead" for q sm
    using key by (simp add: route_contact_sqlite_def sqlite_gates)
  have env: "EMAIL_USER env_ex = Some ''owner@example.org''"
    "truthy (of_env (EMAIL_USER env_ex))" "truthy (of_env (EMAIL_PASS env_ex))"
    "body post_lead ''message'' = None"
    by (simp_all add: env_ex_def post_lead_def lead_def)
  show ?thesis
    unfolding pg sqlite
    by (simp add: contact_pg_strings(1) [OF flds] contact_sqlite_strings(1) [OF flds] env
          store_ex_def)
qed

lemma sublist_concat_member: "x \<in> set xss \<Longrightarrow> sublist x (concat xss)"
proof -
  assume "x \<in> set xss"
  then obtain as bs where "xss = as @ x # bs" by (auto dest: split_list)
  then have "concat xss = concat as @ x @ concat bs" by simp
  then show ?thesis by (simp only: sublist_appendI)
qed

lemma html_pg_contains:
  "sublist n (html_pg n b s p m)" "sublist b (html_pg n b s p m)"
  "sublist s (html_pg n b s p m)" "sublist p (html_pg n b s p m)"
  "sublist m (html_pg n b s p m)"
  unfolding html_pg_def by (rule sublist_concat_member, simp)+

lemma html_sqlite_contains:
  "sublist n (html_sqlite n b s p m i t)" "sublist b (html_sqlite n b s p m i t)"
  "sublist s (html_sqlite n b s p m i t)" "sublist p (html_sqlite n b s p m i t)"
  "sublist m (html_sqlite n b s p m i t)" "sublist i (html_sqlite n b s p m i t)"
  "sublist t (html_sqlite n b s p m i t)"
  unfolding html_sqlite_def by (rule sublist_concat_member, simp)+

text \<open>What the notifications contain, for a submission of strings: the five fields in
  both files; the generated id and the time text in \<^verbatim>\<open>src/unnamed/part_000\<close>, which
  sends a notification when \<^verbatim>\<open>EMAIL_USER\<close> and \<^verbatim>\<open>EMAIL_PASS\<close> are both set.\<close>

lemma notification_contents:
  assumes "requireApiKey_pg e req = Next"
    and "body req ''name'' = Some (JStr n)" "n \<noteq> []"
    and "body req ''business'' = Some (JStr b)" "b \<noteq> []"
    and "body req ''service'' = Some (JStr s)" "s \<noteq> []"
    and "body req ''phone'' = Some (JStr p)" "p \<noteq> []"
    and "body req ''message'' = None \<and> m = [] \<or> body req ''message'' = Some (JStr m)"
  shows "(\<exists>mail. outbox (route_contact_pg e st Resolves now sm req) = [mail] \<and>
            sublist n (html mail) \<and> sublist b (html mail) \<and> sublist s (html mail) \<and>
            sublist p (html mail) \<and> sublist m (html mail)) \<and>
         outbox (route_contact_pg e st Resolves now sm req) =
           outbox (route_contact_pg e st' Resolves now' sm' req) \<and>
         (truthy (of_env (EMAIL_USER e)) \<and> truthy (of_env (EMAIL_PASS e)) \<longrightarrow>
            (\<exists>mail. outbox (route_contact_sqlite e st Calls_back now sm time req) = [mail] \<and>
               sublist n (html mail) \<and> sublist b (html mail) \<and> sublist s (html mail) \<and>
               sublist p (html mail) \<and> sublist m (html mail) \<and>
               sublist (dec (next_id st)) (html mail) \<and> sublist time (html mail)))"
proof -
  have pg: "route_contact_pg e t q c k req = contact_pg e t q c k req" for t q c k
    using assms(1) by (simp add: route_contact_pg_def)
  have sqlite:
    "route_contact_sqlite e st q now sm time req = contact_sqlite e st q now sm time req" for q
    using assms(1) by (simp add: route_contact_sqlite_def sqlite_gates)
  note flds = assms(2-)
  have m_pg: "sublist m (html_pg n b s p (if body req ''message'' = None then ''undefined'' else m))"
    using assms(10) by (auto simp: html_pg_contains)
  have m_sqlite: "sublist m (html_sqlite n b s p
      (if m = [] then ''No additional message'' else m) i t)" for i t
    by (simp add: html_sqlite_contains)
  show ?thesis
    unfolding pg sqlite
    by (simp add: contact_pg_strings(1) [OF flds] contact_sqlite_strings(1) [OF flds]
          html_pg_contains html_sqlite_contains m_pg m_sqlite)
qed

text \<open>
  C6. Every notification of a successful contact submission is to contain the fields
  submitted, the id that the store generated and the current time. The message of
  \<^verbatim>\<open>src/unnamed/part_000\<close> does: its template has the lines \<^verbatim>\<open>Submission ID\<close> and \<^verbatim>\<open>Time\<close>.
  The handler of \<^verbatim>\<open>src/server.js\<close> reads the generated id into \<^verbatim>\<open>submissionId\<close> before
  it builds the message, and then interpolates the five fields of the body and nothing
  else; no expression of its template reads a clock. For the submission below the store
  generates the id 3: the message of \<^verbatim>\<open>src/server.js\<close> has no character \<^verbatim>\<open>3\<close> in its
  subject or its body, while the message of \<^verbatim>\<open>src/unnamed/part_000\<close> for the same
  submission contains the id and the time.
\<close>

theorem server_js_mail_omits_id:
  "answer (route_contact_pg env_ex store_ex Resolves 30 Sent post_lead) =
     Inr \<lparr>status = 200, json = Submitted ''Form submitted!'' 3\<rparr> \<and>
   outbox (route_contact_pg env_ex store_ex Resolves 30 Sent post_lead) =
     [\<lparr>mail_from = Some ''owner@example.org'', mail_to = Some ''owner@example.org'',
       subject = subject_pg ''B'',
       html = html_pg ''A'' ''B'' ''C'' ''D'' ''undefined''\<rparr>] \<and>
   dec 3 = ''3'' \<and>
   \<not> sublist (dec 3) (html_pg ''A'' ''B'' ''C'' ''D'' ''undefined'') \<and>
   \<not> sublist (dec 3) (subject_pg ''B'') \<and>
   outbox (route_contact_sqlite env_ex store_ex Calls_back 30 Sent
             ''2/11/2026, 5:30:00 pm'' post_lead) =
     [\<lparr>mail_from = Some ''owner@example.org'', mail_to = Some ''owner@example.org'',
       subject = subject_sqlite ''B'',
       html = html_sqlite ''A'' ''B'' ''C'' ''D'' ''No additional message'' (dec 3)
                ''2/11/2026, 5:30:00 pm''\<rparr>] \<and>
   sublist (dec 3)
     (html_sqlite ''A'' ''B'' ''C'' ''D'' ''No additional message'' (dec 3)
        ''2/11/2026, 5:30:00 pm'') \<and>
   sublist ''2/11/2026, 5:30:00 pm''
     (html_sqlite ''A'' ''B'' ''C'' ''D'' ''No additional message'' (dec 3)
        ''2/11/2026, 5:30:00 pm'')"
proof -
  have key: "requireApiKey_pg env_ex post_lead = Next"
    by (simp add: requireApiKey_pg_def js_or_def blank_def env_ex_def post_lead_def)
  have flds: "body post_lead ''name'' = Some (JStr ''A'')" "''A'' \<noteq> []"
    "body post_lead ''business'' = Some (JStr ''B'')" "''B'' \<noteq> []"
    "body post_lead ''service'' = Some (JStr ''C'')" "''C'' \<noteq> []"
    "body post_lead ''phone'' = Some (JStr ''D'')" "''D'' \<noteq> []"
    "body post_lead ''message'' = None \<and> [] = [] \<or> body post_lead ''message'' = Some (JStr [])"
    by (simp_all add: lead_def post_lead_def)
  have pg: "route_contact_pg env_ex store_ex Resolves 30 Sent post_lead =
      contact_pg env_ex store_ex Resolves 30 Sent post_lead"
    using key by (simp add: route_contact_pg_def)
  have sqlite: "route_contact_sqlite env_ex store_ex Calls_back 30 Sent t post_lead =
      contact_sqlite env_ex store_ex Calls_back 30 Sent t post_lead" for t
    using key by (simp add: route_contact_sqlite_def sqlite_gates)
  have env: "EMAIL_USER env_ex = Some ''owner@example.org''"
    "truthy (of_env (EMAIL_USER env_ex))" "truthy (of_env (EMAIL_PASS env_ex))"
    "body post_lead ''message'' = None" "next_id store_ex = 3"
    by (simp_all add: env_ex_def post_lead_def lead_def store_ex_def)
  have d: "dec 3 = ''3''" by (simp add: dec.simps)
  have "CHR ''3'' \<notin> set (html_pg ''A'' ''B'' ''C'' ''D'' ''undefined'')"
    by (simp add: html_pg_def nl_def)
  then have h: "\<not> sublist ''3'' (html_pg ''A'' ''B'' ''C'' ''D'' ''undefined'')"
    using set_mono_sublist by fastforce
  have "CHR ''3'' \<notin> set (subject_pg ''B'')"
    by (simp add: subject_pg_def direct_hit_def)
  then have s: "\<not> sublist ''3'' (subject_pg ''B'')"
    using set_mono_sublist by fastforce
  have c: "sublist ''3''
      (html_sqlite ''A'' ''B'' ''C'' ''D'' ''No additional message'' ''3''
         ''2/11/2026, 5:30:00 pm'')"
    "sublist ''2/11/2026, 5:30:00 pm''
      (html_sqlite ''A'' ''B'' ''C'' ''D'' ''No additional message'' ''3''
         ''2/11/2026, 5:30:00 pm'')"
    by (rule html_sqlite_contains)+
  show ?thesis
    unfolding pg sqlite d using h s c
    by (simp add: contact_pg_strings(1) [OF flds] contact_sqlite_strings(1) [OF flds] env d)
qed


end
